theory Spec2Isabelle
  imports Complex_Main
begin

section \<open>Python strings\<close>

text \<open>
  A Python \<open>str\<close> is a sequence of Unicode code points, and \<open>len\<close> counts code points.
  The lexicon and the rule tables of the classifiers are written in Chinese, so a string is
  modelled as a list of code points; a phrase such as the source's "firewall device" entry is the
  list U+9632 U+706B U+7246 U+8A2D U+5099.  ASCII literals are written with \<open>ascii\<close>.
\<close>

type_synonym str = "nat list"

definition ascii :: "string \<Rightarrow> str" where
  "ascii s = map of_char s"

text \<open>
  \<open>str.isspace\<close> for one code point, as CPython defines it (bidirectional class WS, B or S,
  or general category Zs).  \<open>str.strip()\<close> removes such code points at both ends.
\<close>

definition isspace :: "nat \<Rightarrow> bool" where
  "isspace c \<longleftrightarrow>
     (0x09 \<le> c \<and> c \<le> 0x0D) \<or> (0x1C \<le> c \<and> c \<le> 0x20) \<or> c = 0x85 \<or> c = 0xA0 \<or>
     c = 0x1680 \<or> (0x2000 \<le> c \<and> c \<le> 0x200A) \<or> c = 0x2028 \<or> c = 0x2029 \<or>
     c = 0x202F \<or> c = 0x205F \<or> c = 0x3000"

definition strip :: "str \<Rightarrow> str" where
  "strip s = rev (dropWhile isspace (rev (dropWhile isspace s)))"

definition startswith :: "str \<Rightarrow> str \<Rightarrow> bool" where
  "startswith s p \<longleftrightarrow> take (length p) s = p"

text \<open>\<open>contains p s\<close> is Python's \<open>p in s\<close> on strings: \<open>p\<close> occurs as a contiguous substring.\<close>

primrec contains :: "str \<Rightarrow> str \<Rightarrow> bool" where
  "contains p [] \<longleftrightarrow> p = []"
| "contains p (c # cs) \<longleftrightarrow> startswith (c # cs) p \<or> contains p cs"

text \<open>
  \<open>replace s old new\<close> is \<open>s.replace(old, new)\<close>: every non-overlapping occurrence of
  \<open>old\<close>, found from the left, is replaced.  With an empty \<open>old\<close> Python inserts \<open>new\<close>
  before every code point and at the end.
\<close>

fun replace_scan :: "str \<Rightarrow> str \<Rightarrow> str \<Rightarrow> str" where
  "replace_scan old new [] = []"
| "replace_scan old new (c # cs) =
     (if old \<noteq> [] \<and> startswith (c # cs) old
      then new @ replace_scan old new (drop (length old - 1) cs)
      else c # replace_scan old new cs)"

definition replace :: "str \<Rightarrow> str \<Rightarrow> str \<Rightarrow> str" where
  "replace s old new =
     (if old = [] then new @ concat (map (\<lambda>c. c # new) s) else replace_scan old new s)"

text \<open>\<open>join sep xs\<close> is \<open>sep.join(xs)\<close>.\<close>

fun join :: "str \<Rightarrow> str list \<Rightarrow> str" where
  "join sep [] = []"
| "join sep [x] = x"
| "join sep (x # y # ys) = x @ sep @ join sep (y # ys)"

text \<open>The decimal digits of a natural number, as an f-string prints \<open>len(found_reserved)\<close>.\<close>

fun str_of_nat :: "nat \<Rightarrow> str" where
  "str_of_nat n = (if n < 10 then [0x30 + n] else str_of_nat (n div 10) @ [0x30 + n mod 10])"

declare str_of_nat.simps [simp del]

text \<open>
  \<open>sorted(keys, key=len, reverse=True)\<close>: Python's sort is stable also under
  \<open>reverse=True\<close>, so phrases of equal length keep the order of the dictionary.
\<close>

definition sorted_by_len_desc :: "str list \<Rightarrow> str list" where
  "sorted_by_len_desc ks = sort_key (\<lambda>k. - int (length k)) ks"

text \<open>
  \<open>unique xs\<close> keeps the first occurrence of every element, in order of appearance, as
  \<open>Series.unique()\<close> does for the category column.
\<close>

definition unique :: "'a list \<Rightarrow> 'a list" where
  "unique xs = rev (remdups (rev xs))"

text \<open>
  \<open>max(xs, key=f)\<close> returns the first element with the largest key; on an empty sequence it
  raises, which is \<open>None\<close> here.
\<close>

fun max_first :: "('a \<Rightarrow> real) \<Rightarrow> 'a \<Rightarrow> 'a list \<Rightarrow> 'a" where
  "max_first f best [] = best"
| "max_first f best (x # xs) = max_first f (if f best < f x then x else best) xs"

definition max_by :: "('a \<Rightarrow> real) \<Rightarrow> 'a list \<Rightarrow> 'a option" where
  "max_by f xs = (case xs of [] \<Rightarrow> None | x # rest \<Rightarrow> Some (max_first f x rest))"

section \<open>The regular expressions of the preprocessing\<close>

text \<open>
  The substitutions the source performs with \<open>re.sub\<close> and \<open>re.search\<close> on fixed patterns
  are written out as list functions.  \<open>\s\<close> on a \<open>str\<close> pattern is \<open>isspace\<close>.
\<close>

text \<open>\<open>re.sub(r'\s+', ' ', s)\<close>: every maximal run of whitespace becomes one space.\<close>

function collapse_ws :: "str \<Rightarrow> str" where
  "collapse_ws [] = []"
| "collapse_ws (c # cs) =
     (if isspace c then 0x20 # collapse_ws (dropWhile isspace cs) else c # collapse_ws cs)"
  by pat_completeness auto
termination
  by (relation "measure length") (auto simp: le_imp_less_Suc length_dropWhile_le)

text \<open>\<open>re.sub(r'\s+', '', s)\<close>.\<close>

definition remove_ws :: "str \<Rightarrow> str" where
  "remove_ws s = filter (\<lambda>c. \<not> isspace c) s"

text \<open>
  \<open>re.sub(r'\([^)]*\)', '', s)\<close>: an opening parenthesis (U+0028) that is followed somewhere by
  a closing one (U+0029) is removed together with everything up to the first closing one.
\<close>

function remove_brackets :: "str \<Rightarrow> str" where
  "remove_brackets [] = []"
| "remove_brackets (c # cs) =
     (if c = 0x28 \<and> 0x29 \<in> set cs
      then remove_brackets (drop 1 (dropWhile (\<lambda>x. x \<noteq> 0x29) cs))
      else c # remove_brackets cs)"
  by pat_completeness auto
termination
proof (relation "measure length")
  fix c :: nat and cs :: str
  have "length (drop 1 (dropWhile (\<lambda>x. x \<noteq> 0x29) cs)) \<le> length cs"
    using length_dropWhile_le [of "\<lambda>x. x \<noteq> 0x29" cs] by simp
  then show "(drop 1 (dropWhile (\<lambda>x. x \<noteq> 0x29) cs), c # cs) \<in> measure length"
    by simp
qed simp_all

text \<open>
  \<open>re.search(r'\(([^)]*)\)', s)\<close> and \<open>group(1).strip()\<close>: the text between the first opening
  parenthesis and the first closing one after it; the empty string when nothing matches.
\<close>

definition bracket_content_of :: "str \<Rightarrow> str" where
  "bracket_content_of s =
     (let r = dropWhile (\<lambda>x. x \<noteq> 0x28) s
      in if r \<noteq> [] \<and> 0x29 \<in> set (drop 1 r)
         then strip (takeWhile (\<lambda>x. x \<noteq> 0x29) (drop 1 r)) else [])"

text \<open>
  \<open>\d\<close> on a \<open>str\<close> pattern matches every Unicode decimal digit.  The ASCII digits are
  fixed here; which code points beyond ASCII are decimal digits is a table of the Python
  runtime and is a parameter.
\<close>

definition re_digit :: "(nat \<Rightarrow> bool) \<Rightarrow> nat \<Rightarrow> bool" where
  "re_digit nd c \<longleftrightarrow> (0x30 \<le> c \<and> c \<le> 0x39) \<or> (0x80 \<le> c \<and> nd c)"

text \<open>
  A match of \<open>\[RESERVED_\d+\]\<close> at the start of \<open>s\<close>, as the number of code points it
  covers.  The closing bracket is no digit, so the greedy \<open>\d+\<close> never has to give back.
\<close>

definition match_placeholder :: "(nat \<Rightarrow> bool) \<Rightarrow> str \<Rightarrow> nat option" where
  "match_placeholder nd s =
     (if startswith s (ascii ''[RESERVED_'')
      then (let r = drop 10 s; ds = takeWhile (re_digit nd) r
            in if ds \<noteq> [] \<and> startswith (drop (length ds) r) (ascii '']'')
               then Some (10 + length ds + 1) else None)
      else None)"

text \<open>\<open>re.sub(r'\[RESERVED_\d+\]', '', s)\<close>.\<close>

function strip_placeholders :: "(nat \<Rightarrow> bool) \<Rightarrow> str \<Rightarrow> str" where
  "strip_placeholders nd [] = []"
| "strip_placeholders nd (c # cs) =
     (case match_placeholder nd (c # cs) of
        Some n \<Rightarrow> strip_placeholders nd (drop (n - 1) cs)
      | None \<Rightarrow> c # strip_placeholders nd cs)"
  by pat_completeness auto
termination
  by (relation "measure (\<lambda>(nd, s). length s)") auto

section \<open>External collaborators\<close>

text \<open>
  The classifiers call libraries that are not part of the repository.  They are parameters
  of the model:
  \<^item> \<open>jieba_cut\<close> is \<open>jieba.cut\<close>, the generic word segmenter, consumed as a list;
  \<^item> \<open>pseg_cut\<close> is \<open>jieba.posseg.cut\<close>, yielding words with a part-of-speech flag;
  \<^item> \<open>lower\<close> is \<open>str.lower\<close> with the Unicode case tables of the runtime;
  \<^item> \<open>unicode_Nd\<close> tells which code points beyond ASCII are decimal digits;
  \<^item> \<open>re_search p s\<close> tells whether \<open>re.search(p, s, re.IGNORECASE)\<close> finds a match;
  \<^item> \<open>vec_similarity c s\<close> is the cosine similarity between the TF-IDF vector of \<open>s\<close>
    and the centroid of category \<open>c\<close>, that is \<open>vectorizer.transform\<close> followed by
    \<open>cosine_similarity\<close>; it is \<open>None\<close> when either call raises.
\<close>

record env =
  jieba_cut :: "str \<Rightarrow> str list"
  pseg_cut :: "str \<Rightarrow> (str \<times> str) list"
  lower :: "str \<Rightarrow> str"
  unicode_Nd :: "nat \<Rightarrow> bool"
  re_search :: "str \<Rightarrow> str \<Rightarrow> bool"
  vec_similarity :: "str \<Rightarrow> str \<Rightarrow> real option"

section \<open>Lexicon\<close>

text \<open>
  The two reserved-word dictionaries, in insertion order.  The dictionary literal of
  \<open>ReservedWordProcessor\<close> gives the "network device" phrase twice: the key keeps its
  first position and the later value.
\<close>

definition reserved_words_v3 :: "(str \<times> str list) list" where
  "reserved_words_v3 =
    [([0x9632, 0x706B, 0x7246], [[0x9632, 0x706B, 0x7246]]),
     ([0x8CC7, 0x6599, 0x5EAB], [[0x8CC7, 0x6599, 0x5EAB]]),
     ([0x4F5C, 0x696D, 0x7CFB, 0x7D71], [[0x4F5C, 0x696D, 0x7CFB, 0x7D71]]),
     ([0x7BA1, 0x7406, 0x7CFB, 0x7D71], [[0x7BA1, 0x7406, 0x7CFB, 0x7D71]]),
     ([0x5132, 0x5B58, 0x5A92, 0x9AD4], [[0x5132, 0x5B58, 0x5A92, 0x9AD4]]),
     ([0x61C9, 0x7528, 0x7A0B, 0x5F0F], [[0x61C9, 0x7528, 0x7A0B, 0x5F0F]]),
     ([0x7DB2, 0x8DEF, 0x8A2D, 0x5099], [[0x7DB2, 0x8DEF, 0x8A2D, 0x5099], [0x7DB2, 0x8DEF], [0x8A2D, 0x5099]]),
     ([0x4F3A, 0x670D, 0x5668], [[0x4F3A, 0x670D, 0x5668]]),
     ([0x865B, 0x64EC, 0x6A5F], [[0x865B, 0x64EC, 0x6A5F]]),
     ([0x5BB9, 0x5668, 0x5316], [[0x5BB9, 0x5668, 0x5316]]),
     ([0x8CC7, 0x6599, 0x5EAB, 0x7BA1, 0x7406, 0x7CFB, 0x7D71], [[0x8CC7, 0x6599, 0x5EAB, 0x7BA1, 0x7406, 0x7CFB, 0x7D71], [0x8CC7, 0x6599, 0x5EAB], [0x7BA1, 0x7406, 0x7CFB, 0x7D71]]),
     ([0x7DB2, 0x8DEF, 0x9632, 0x706B, 0x7246], [[0x7DB2, 0x8DEF, 0x9632, 0x706B, 0x7246], [0x7DB2, 0x8DEF], [0x9632, 0x706B, 0x7246]]),
     ([0x53EF, 0x651C, 0x5F0F, 0x5132, 0x5B58, 0x5A92, 0x9AD4], [[0x53EF, 0x651C, 0x5F0F, 0x5132, 0x5B58, 0x5A92, 0x9AD4], [0x53EF, 0x651C, 0x5F0F], [0x5132, 0x5B58, 0x5A92, 0x9AD4]]),
     ([0x5099, 0x4EFD, 0x7BA1, 0x7406, 0x7CFB, 0x7D71], [[0x5099, 0x4EFD, 0x7BA1, 0x7406, 0x7CFB, 0x7D71], [0x5099, 0x4EFD], [0x7BA1, 0x7406, 0x7CFB, 0x7D71]]),
     ([0x76E3, 0x63A7, 0x7BA1, 0x7406, 0x7CFB, 0x7D71], [[0x76E3, 0x63A7, 0x7BA1, 0x7406, 0x7CFB, 0x7D71], [0x76E3, 0x63A7], [0x7BA1, 0x7406, 0x7CFB, 0x7D71]]),
     ([0x5167, 0x90E8, 0x4EBA, 0x54E1], [[0x5167, 0x90E8, 0x4EBA, 0x54E1], [0x5167, 0x90E8], [0x4EBA, 0x54E1]]),
     ([0x5916, 0x90E8, 0x4EBA, 0x54E1], [[0x5916, 0x90E8, 0x4EBA, 0x54E1], [0x5916, 0x90E8], [0x4EBA, 0x54E1]]),
     ([0x627F, 0x8FA6, 0x4EBA], [[0x627F, 0x8FA6, 0x4EBA]]),
     ([0x7BA1, 0x7406, 0x54E1], [[0x7BA1, 0x7406, 0x54E1]]),
     ([0x4F7F, 0x7528, 0x8005], [[0x4F7F, 0x7528, 0x8005]]),
     ([0x4F5C, 0x696D, 0x6587, 0x4EF6], [[0x4F5C, 0x696D, 0x6587, 0x4EF6], [0x4F5C, 0x696D], [0x6587, 0x4EF6]]),
     ([0x96FB, 0x5B50, 0x7D00, 0x9304], [[0x96FB, 0x5B50, 0x7D00, 0x9304], [0x96FB, 0x5B50], [0x7D00, 0x9304]]),
     ([0x7A0B, 0x5E8F, 0x6587, 0x4EF6], [[0x7A0B, 0x5E8F, 0x6587, 0x4EF6], [0x7A0B, 0x5E8F], [0x6587, 0x4EF6]]),
     ([0x6280, 0x8853, 0x6587, 0x4EF6], [[0x6280, 0x8853, 0x6587, 0x4EF6], [0x6280, 0x8853], [0x6587, 0x4EF6]]),
     ([0x64CD, 0x4F5C, 0x624B, 0x518A], [[0x64CD, 0x4F5C, 0x624B, 0x518A], [0x64CD, 0x4F5C], [0x624B, 0x518A]]),
     ([0x7DB2, 0x8DEF, 0x670D, 0x52D9], [[0x7DB2, 0x8DEF, 0x670D, 0x52D9], [0x7DB2, 0x8DEF], [0x670D, 0x52D9]]),
     ([0x61C9, 0x7528, 0x670D, 0x52D9], [[0x61C9, 0x7528, 0x670D, 0x52D9], [0x61C9, 0x7528], [0x670D, 0x52D9]]),
     ([0x8CC7, 0x6599, 0x670D, 0x52D9], [[0x8CC7, 0x6599, 0x670D, 0x52D9], [0x8CC7, 0x6599], [0x670D, 0x52D9]]),
     ([0x96F2, 0x7AEF, 0x670D, 0x52D9], [[0x96F2, 0x7AEF, 0x670D, 0x52D9], [0x96F2, 0x7AEF], [0x670D, 0x52D9]]),
     ([0x9632, 0x706B, 0x7246, 0x8A2D, 0x5099], [[0x9632, 0x706B, 0x7246, 0x8A2D, 0x5099], [0x9632, 0x706B, 0x7246], [0x8A2D, 0x5099]]),
     ([0x5132, 0x5B58, 0x8A2D, 0x5099], [[0x5132, 0x5B58, 0x8A2D, 0x5099], [0x5132, 0x5B58], [0x8A2D, 0x5099]]),
     ([0x5B89, 0x5168, 0x8A2D, 0x5099], [[0x5B89, 0x5168, 0x8A2D, 0x5099], [0x5B89, 0x5168], [0x8A2D, 0x5099]]),
     ([0x76E3, 0x63A7, 0x8A2D, 0x5099], [[0x76E3, 0x63A7, 0x8A2D, 0x5099], [0x76E3, 0x63A7], [0x8A2D, 0x5099]]),
     (ascii ''MySQL'', [ascii ''MySQL'']),
     (ascii ''Oracle'', [ascii ''Oracle'']),
     (ascii ''SQL Server'', [ascii ''SQL Server'', ascii ''SQL'', ascii ''Server'']),
     (ascii ''Windows'', [ascii ''Windows'']),
     (ascii ''Linux'', [ascii ''Linux'']),
     (ascii ''Microsoft'', [ascii ''Microsoft'']),
     (ascii ''VMware'', [ascii ''VMware'']),
     (ascii ''Docker'', [ascii ''Docker'']),
     ([0x8FA6, 0x516C, 0x5BA4], [[0x8FA6, 0x516C, 0x5BA4]]),
     ([0x6703, 0x8B70, 0x5BA4], [[0x6703, 0x8B70, 0x5BA4]]),
     ([0x6A5F, 0x623F], [[0x6A5F, 0x623F]]),
     ([0x8CC7, 0x6599, 0x4E2D, 0x5FC3], [[0x8CC7, 0x6599, 0x4E2D, 0x5FC3], [0x8CC7, 0x6599], [0x4E2D, 0x5FC3]]),
     (ascii ''API'', [ascii ''API'']),
     (ascii ''SOP'', [ascii ''SOP'']),
     (ascii ''ERP'', [ascii ''ERP'']),
     (ascii ''CRM'', [ascii ''CRM''])]"

definition reserved_words_ult :: "(str \<times> str list) list" where
  "reserved_words_ult =
    [([0x9632, 0x706B, 0x7246, 0x8A2D, 0x5099], [[0x9632, 0x706B, 0x7246], [0x8A2D, 0x5099]]),
     ([0x7DB2, 0x8DEF, 0x8A2D, 0x5099], [[0x7DB2, 0x8DEF], [0x8A2D, 0x5099]]),
     ([0x5132, 0x5B58, 0x8A2D, 0x5099], [[0x5132, 0x5B58], [0x8A2D, 0x5099]]),
     ([0x76E3, 0x63A7, 0x8A2D, 0x5099], [[0x76E3, 0x63A7], [0x8A2D, 0x5099]]),
     ([0x5B89, 0x5168, 0x8A2D, 0x5099], [[0x5B89, 0x5168], [0x8A2D, 0x5099]]),
     ([0x8CC7, 0x6599, 0x5EAB, 0x7BA1, 0x7406, 0x7CFB, 0x7D71], [[0x8CC7, 0x6599, 0x5EAB], [0x7BA1, 0x7406, 0x7CFB, 0x7D71]]),
     ([0x8CC7, 0x6599, 0x5EAB, 0x7CFB, 0x7D71], [[0x8CC7, 0x6599, 0x5EAB], [0x7CFB, 0x7D71]]),
     ([0x7BA1, 0x7406, 0x7CFB, 0x7D71], [[0x7BA1, 0x7406], [0x7CFB, 0x7D71]]),
     ([0x5167, 0x90E8, 0x4EBA, 0x54E1], [[0x5167, 0x90E8], [0x4EBA, 0x54E1]]),
     ([0x5916, 0x90E8, 0x4EBA, 0x54E1], [[0x5916, 0x90E8], [0x4EBA, 0x54E1]]),
     ([0x7CFB, 0x7D71, 0x7BA1, 0x7406, 0x54E1], [[0x7CFB, 0x7D71], [0x7BA1, 0x7406, 0x54E1]]),
     ([0x4F5C, 0x696D, 0x6587, 0x4EF6], [[0x4F5C, 0x696D], [0x6587, 0x4EF6]]),
     ([0x96FB, 0x5B50, 0x7D00, 0x9304], [[0x96FB, 0x5B50], [0x7D00, 0x9304]]),
     ([0x7A0B, 0x5E8F, 0x6587, 0x4EF6], [[0x7A0B, 0x5E8F], [0x6587, 0x4EF6]]),
     ([0x6280, 0x8853, 0x6587, 0x4EF6], [[0x6280, 0x8853], [0x6587, 0x4EF6]]),
     ([0x7DB2, 0x8DEF, 0x670D, 0x52D9], [[0x7DB2, 0x8DEF], [0x670D, 0x52D9]]),
     ([0x96F2, 0x7AEF, 0x670D, 0x52D9], [[0x96F2, 0x7AEF], [0x670D, 0x52D9]]),
     ([0x61C9, 0x7528, 0x670D, 0x52D9], [[0x61C9, 0x7528], [0x670D, 0x52D9]]),
     ([0x53EF, 0x651C, 0x5F0F, 0x5132, 0x5B58, 0x5A92, 0x9AD4], [[0x53EF, 0x651C, 0x5F0F], [0x5132, 0x5B58, 0x5A92, 0x9AD4]]),
     ([0x5132, 0x5B58, 0x5A92, 0x9AD4], [[0x5132, 0x5B58], [0x5A92, 0x9AD4]]),
     ([0x4F5C, 0x696D, 0x7CFB, 0x7D71], [[0x4F5C, 0x696D, 0x7CFB, 0x7D71]]),
     (ascii ''Windows'', [ascii ''Windows'']),
     (ascii ''Linux'', [ascii ''Linux'']),
     (ascii ''MySQL'', [ascii ''MySQL'']),
     (ascii ''Oracle'', [ascii ''Oracle''])]"

section \<open>Segmenter of \<open>ReservedWordProcessor\<close>\<close>

definition placeholder_v3 :: "nat \<Rightarrow> str" where
  "placeholder_v3 n = ascii '' [RESERVED_'' @ str_of_nat n @ ascii ''] ''"

text \<open>
  One round of the loop over the sorted phrases.  The state is \<open>found_reserved\<close> and
  \<open>remaining_text\<close>; the test \<open>reserved_phrase in text\<close> reads the original text, the
  replacement works on the remaining text.  \<open>ph\<close> builds the placeholder from the number of
  phrases found so far.
\<close>

definition extract_step :: "(nat \<Rightarrow> str) \<Rightarrow> str \<Rightarrow> str list \<times> str \<Rightarrow> str \<Rightarrow> str list \<times> str" where
  "extract_step ph text st p =
     (case st of (found, remaining) \<Rightarrow>
        if contains p text
        then (let found' = found @ [p] in (found', replace remaining p (ph (length found'))))
        else (found, remaining))"

definition extract_loop :: "(nat \<Rightarrow> str) \<Rightarrow> str list \<Rightarrow> str \<Rightarrow> str list \<times> str" where
  "extract_loop ph keys text = foldl (extract_step ph text) ([], text) (sorted_by_len_desc keys)"

record extraction =
  found_reserved :: "str list"
  remaining_text :: str
  ex_original_text :: str

definition extract_reserved_words :: "(str \<times> str list) list \<Rightarrow> str \<Rightarrow> extraction" where
  "extract_reserved_words lexicon text =
     (case extract_loop placeholder_v3 (map fst lexicon) text of (found, remaining) \<Rightarrow>
        \<lparr>found_reserved = found, remaining_text = strip remaining, ex_original_text = text\<rparr>)"

record processed =
  reserved_words :: "str list"
  regular_words :: "str list"
  all_tokens :: "str list"
  original_text :: str

definition process_with_reserved_words :: "env \<Rightarrow> (str \<times> str list) list \<Rightarrow> str \<Rightarrow> processed" where
  "process_with_reserved_words e lexicon text =
     (let reserved_result = extract_reserved_words lexicon text;
          remaining_words =
            (if remaining_text reserved_result \<noteq> []
             then (let clean_remaining =
                         strip_placeholders (unicode_Nd e) (remaining_text reserved_result)
                   in if strip clean_remaining \<noteq> []
                      then filter (\<lambda>w. 0 < length (strip w)) (jieba_cut e (strip clean_remaining))
                      else [])
             else [])
      in \<lparr>reserved_words = found_reserved reserved_result,
          regular_words = remaining_words,
          all_tokens = found_reserved reserved_result @ remaining_words,
          original_text = text\<rparr>)"

section \<open>Segmenter of \<open>UltimateClassifier\<close>\<close>

definition placeholder_ult :: "nat \<Rightarrow> str" where
  "placeholder_ult n = ascii '' [RESERVED] ''"

record processed_ult =
  u_original :: str
  u_reserved_words :: "str list"
  u_remaining_words :: "str list"
  u_expanded_tokens :: "str list"
  u_all_tokens :: "str list"
  u_processed_text :: str

text \<open>
  \<open>re.sub(r'\[RESERVED\]', '', s)\<close> has a literal pattern and is \<open>replace\<close>.  A found phrase
  is always a key of the dictionary, so the \<open>else\<close> branch of the expansion is kept only for
  the shape of the source.
\<close>

definition process_text_with_reserved_words :: "env \<Rightarrow> (str \<times> str list) list \<Rightarrow> str \<Rightarrow> processed_ult" where
  "process_text_with_reserved_words e lexicon text =
     (case extract_loop placeholder_ult (map fst lexicon) text of (found, remaining) \<Rightarrow>
        let clean_remaining = strip (replace remaining (ascii ''[RESERVED]'') []);
            remaining_words =
              (if clean_remaining \<noteq> []
               then filter (\<lambda>w. 1 < length (strip w)) (jieba_cut e clean_remaining)
               else []);
            expanded_tokens =
              concat (map (\<lambda>r. case map_of lexicon r of Some parts \<Rightarrow> parts | None \<Rightarrow> [r]) found);
            tokens = expanded_tokens @ remaining_words
        in \<lparr>u_original = text,
            u_reserved_words = found,
            u_remaining_words = remaining_words,
            u_expanded_tokens = expanded_tokens,
            u_all_tokens = tokens,
            u_processed_text = join (ascii '' '') tokens\<rparr>)"

section \<open>Text variants of \<open>EnhancedClassifierV3.preprocess_text\<close>\<close>

record text_variants =
  original :: str
  cleaned :: str
  no_brackets :: str
  bracket_content :: str
  lower_case :: str
  no_spaces :: str
  tv_reserved_words :: "str list"
  tv_regular_words :: "str list"
  tv_all_tokens :: "str list"
  traditional_words :: "str list"
  traditional_words_filtered :: "str list"
  pos_tags :: "(str \<times> str) list"

text \<open>The five particles that are filtered from the traditional segmentation.\<close>

definition stopwords :: "str list" where
  "stopwords = [[0x7684], [0x8207], [0x53CA], [0x548C], [0x6216]]"

definition preprocess_text :: "env \<Rightarrow> (str \<times> str list) list \<Rightarrow> str \<Rightarrow> text_variants" where
  "preprocess_text e lexicon text =
     (let cleaned_text = collapse_ws (strip text);
          reserved_result = process_with_reserved_words e lexicon cleaned_text;
          words = jieba_cut e cleaned_text
      in \<lparr>original = strip text,
          cleaned = cleaned_text,
          no_brackets = strip (remove_brackets cleaned_text),
          bracket_content = bracket_content_of cleaned_text,
          lower_case = lower e cleaned_text,
          no_spaces = remove_ws cleaned_text,
          tv_reserved_words = reserved_words reserved_result,
          tv_regular_words = regular_words reserved_result,
          tv_all_tokens = all_tokens reserved_result,
          traditional_words = words,
          traditional_words_filtered =
            filter (\<lambda>w. 1 < length (strip w) \<and> strip w \<notin> set stopwords) words,
          pos_tags = pseg_cut e cleaned_text\<rparr>)"

section \<open>Rule tables of \<open>EnhancedClassifierV3\<close>\<close>

text \<open>
  The categories are strings; the ones the tables name are software, hardware, physical,
  data, personnel and service.
\<close>

definition cat_software :: str where
  "cat_software = [0x8EDF, 0x9AD4]"

definition cat_hardware :: str where
  "cat_hardware = [0x786C, 0x9AD4]"

definition cat_physical :: str where
  "cat_physical = [0x5BE6, 0x9AD4]"

definition cat_data :: str where
  "cat_data = [0x8CC7, 0x6599]"

definition cat_personnel :: str where
  "cat_personnel = [0x4EBA, 0x54E1]"

definition cat_service :: str where
  "cat_service = [0x670D, 0x52D9]"

text \<open>
  A missing tier reads as the empty list (\<open>keywords.get('strong', [])\<close>), so the tiers are
  plain lists.  An exclusion rule is a dictionary whose keys may be absent; the source tests
  \<open>key in rules\<close>, so each key is optional.
\<close>

record keyword_tiers =
  strong :: "str list"
  medium :: "str list"
  weak :: "str list"

record exclusion_rule =
  include_reserved_words :: "str list option"
  exclude_reserved_words :: "str list option"
  include_if_reserved_and_contains :: "(str \<times> str) list option"
  exclude_if_reserved_and_contains :: "(str \<times> str) list option"
  exclude_if_contains :: "str list option"
  include_if_contains :: "str list option"

definition category_keywords_v3 :: "(str \<times> keyword_tiers) list" where
  "category_keywords_v3 =
    [(cat_software,
      \<lparr>strong =
          [[0x7CFB, 0x7D71], [0x8EDF, 0x9AD4], [0x61C9, 0x7528, 0x7A0B, 0x5F0F],
           [0x8CC7, 0x6599, 0x5EAB], [0x7A0B, 0x5F0F], [0x8A9E, 0x8A00], [0x5E73, 0x53F0],
           [0x6846, 0x67B6], [0x8CC7, 0x6599, 0x5EAB, 0x7BA1, 0x7406, 0x7CFB, 0x7D71],
           ascii ''MySQL'', ascii ''Oracle'', ascii ''SQL Server'', ascii ''Windows'',
           ascii ''Linux''],
       medium =
          [ascii ''server'', ascii ''sql'', ascii ''unix'', ascii ''java'', ascii ''python'',
           ascii ''.net'', ascii ''asp'', ascii ''API'', ascii ''ERP'', ascii ''CRM''],
       weak =
          [[0x7BA1, 0x7406], [0x958B, 0x767C], [0x670D, 0x52D9, 0x5668], [0x61C9, 0x7528]]\<rparr>),
     (cat_hardware,
      \<lparr>strong =
          [[0x786C, 0x9AD4], [0x8A2D, 0x5099], [0x4F3A, 0x670D, 0x5668], [0x4E3B, 0x6A5F],
           [0x96FB, 0x8166], [0x7DB2, 0x8DEF, 0x8A2D, 0x5099], [0x5132, 0x5B58, 0x8A2D, 0x5099],
           [0x9632, 0x706B, 0x7246, 0x8A2D, 0x5099], [0x76E3, 0x63A7, 0x8A2D, 0x5099],
           [0x5B89, 0x5168, 0x8A2D, 0x5099]],
       medium =
          [ascii ''server'', [0x4EA4, 0x63DB, 0x5668], [0x8DEF, 0x7531, 0x5668],
           [0x9632, 0x706B, 0x7246], [0x5370, 0x8868, 0x6A5F], [0x5132, 0x5B58]],
       weak =
          [[0x6A5F, 0x5668], [0x8A2D, 0x65BD], [0x7D42, 0x7AEF], [0x88DD, 0x7F6E]]\<rparr>),
     (cat_physical,
      \<lparr>strong =
          [[0x5BE6, 0x9AD4], [0x74B0, 0x5883], [0x8A2D, 0x65BD], [0x5834, 0x6240],
           [0x7A7A, 0x9593], [0x6A5F, 0x623F], [0x8FA6, 0x516C, 0x5BA4], [0x6703, 0x8B70, 0x5BA4],
           [0x8CC7, 0x6599, 0x4E2D, 0x5FC3]],
       medium =
          [[0x5EFA, 0x7BC9], [0x5834, 0x5730], [0x4F4D, 0x7F6E], [0x5340, 0x57DF],
           [0x53EF, 0x651C, 0x5F0F, 0x5132, 0x5B58, 0x5A92, 0x9AD4]],
       weak =
          [[0x5730, 0x9EDE], [0x8655, 0x6240], [0x5A92, 0x9AD4]]\<rparr>),
     (cat_data,
      \<lparr>strong =
          [[0x8CC7, 0x6599], [0x6587, 0x4EF6], [0x6A94, 0x6848], [0x7D00, 0x9304],
           [0x5408, 0x7D04], [0x6587, 0x6A94], [0x4F5C, 0x696D, 0x6587, 0x4EF6],
           [0x96FB, 0x5B50, 0x7D00, 0x9304], [0x7A0B, 0x5E8F, 0x6587, 0x4EF6],
           [0x6280, 0x8853, 0x6587, 0x4EF6], [0x64CD, 0x4F5C, 0x624B, 0x518A]],
       medium =
          [[0x4F5C, 0x696D], [0x7A0B, 0x5E8F], ascii ''SOP'', [0x5099, 0x4EFD], [0x65E5, 0x8A8C],
           [0x539F, 0x59CB, 0x78BC], [0x624B, 0x518A]],
       weak =
          [[0x7D00, 0x9304], [0x8CC7, 0x8A0A], [0x5167, 0x5BB9], [0x5831, 0x544A]]\<rparr>),
     (cat_personnel,
      \<lparr>strong =
          [[0x4EBA, 0x54E1], [0x54E1, 0x5DE5], [0x8077, 0x54E1], [0x4F7F, 0x7528, 0x8005],
           [0x7528, 0x6236], [0x7BA1, 0x7406, 0x54E1], [0x5167, 0x90E8, 0x4EBA, 0x54E1],
           [0x5916, 0x90E8, 0x4EBA, 0x54E1], [0x627F, 0x8FA6, 0x4EBA]],
       medium =
          [[0x5167, 0x90E8], [0x5916, 0x90E8], [0x5BA2, 0x6236], [0x5EE0, 0x5546],
           [0x59D4, 0x5916]],
       weak =
          [[0x4EBA], [0x8005], [0x5DE5, 0x4F5C, 0x4EBA, 0x54E1]]\<rparr>),
     (cat_service,
      \<lparr>strong =
          [[0x670D, 0x52D9], [0x61C9, 0x7528, 0x670D, 0x52D9], [0x7CFB, 0x7D71, 0x670D, 0x52D9],
           [0x7DB2, 0x8DEF, 0x670D, 0x52D9], [0x96F2, 0x7AEF, 0x670D, 0x52D9],
           [0x8CC7, 0x6599, 0x670D, 0x52D9]],
       medium =
          [ascii ''api'', ascii ''web'', [0x7DB2, 0x7AD9], [0x5165, 0x53E3, 0x7DB2, 0x7AD9],
           [0x61C9, 0x7528]],
       weak =
          [[0x529F, 0x80FD], [0x652F, 0x63F4], [0x5E73, 0x53F0]]\<rparr>)]"

definition exclusion_rules_v3 :: "(str \<times> exclusion_rule) list" where
  "exclusion_rules_v3 =
    [(cat_personnel,
      \<lparr>include_reserved_words = None,
       exclude_reserved_words = Some
          [[0x4F5C, 0x696D, 0x6587, 0x4EF6], [0x96FB, 0x5B50, 0x7D00, 0x9304],
           [0x7A0B, 0x5E8F, 0x6587, 0x4EF6], [0x6280, 0x8853, 0x6587, 0x4EF6]],
       include_if_reserved_and_contains = None,
       exclude_if_reserved_and_contains = None,
       exclude_if_contains = Some
          [[0x6587, 0x4EF6], [0x6A94, 0x6848], [0x8CC7, 0x6599], [0x7A0B, 0x5E8F],
           [0x7CFB, 0x7D71], [0x8A2D, 0x5099], [0x670D, 0x52D9], [0x8CC7, 0x6599, 0x5EAB]],
       include_if_contains = None\<rparr>),
     (cat_data,
      \<lparr>include_reserved_words = Some
          [[0x4F5C, 0x696D, 0x6587, 0x4EF6], [0x96FB, 0x5B50, 0x7D00, 0x9304],
           [0x7A0B, 0x5E8F, 0x6587, 0x4EF6], [0x6280, 0x8853, 0x6587, 0x4EF6],
           [0x64CD, 0x4F5C, 0x624B, 0x518A]],
       exclude_reserved_words = None,
       include_if_reserved_and_contains = None,
       exclude_if_reserved_and_contains = None,
       exclude_if_contains = None,
       include_if_contains = Some
          [[0x6587, 0x4EF6], [0x6A94, 0x6848], [0x7D00, 0x9304], [0x5408, 0x7D04],
           [0x4F5C, 0x696D], ascii ''SOP'']\<rparr>),
     (cat_software,
      \<lparr>include_reserved_words = Some
          [[0x8CC7, 0x6599, 0x5EAB, 0x7BA1, 0x7406, 0x7CFB, 0x7D71], ascii ''MySQL'',
           ascii ''Oracle'', ascii ''SQL Server'', ascii ''Windows'', ascii ''Linux''],
       exclude_reserved_words = None,
       include_if_reserved_and_contains = None,
       exclude_if_reserved_and_contains = Some [([0x9632, 0x706B, 0x7246], [0x8A2D, 0x5099])],
       exclude_if_contains = None,
       include_if_contains = None\<rparr>),
     (cat_hardware,
      \<lparr>include_reserved_words = Some
          [[0x9632, 0x706B, 0x7246, 0x8A2D, 0x5099], [0x7DB2, 0x8DEF, 0x8A2D, 0x5099],
           [0x5132, 0x5B58, 0x8A2D, 0x5099], [0x76E3, 0x63A7, 0x8A2D, 0x5099],
           [0x5B89, 0x5168, 0x8A2D, 0x5099]],
       exclude_reserved_words = None,
       include_if_reserved_and_contains = Some [([0x9632, 0x706B, 0x7246], [0x8A2D, 0x5099])],
       exclude_if_reserved_and_contains = None,
       exclude_if_contains = None,
       include_if_contains = None\<rparr>)]"

definition category_patterns_v3 :: "(str \<times> str list) list" where
  "category_patterns_v3 =
    [(cat_software,
      [[0x2E, 0x2A, 0x7CFB, 0x7D71, 0x24], [0x2E, 0x2A, 0x8EDF, 0x9AD4, 0x24],
       [0x2E, 0x2A, 0x7A0B, 0x5F0F, 0x2E, 0x2A], [0x2E, 0x2A, 0x8CC7, 0x6599, 0x5EAB, 0x2E, 0x2A],
       ascii ''.*(windows|linux|unix|sql|mysql|oracle).*'',
       [0x8CC7, 0x6599, 0x5EAB, 0x7BA1, 0x7406, 0x7CFB, 0x7D71], [0x7BA1, 0x7406, 0x7CFB, 0x7D71]]),
     (cat_hardware,
      [[0x2E, 0x2A, 0x8A2D, 0x5099, 0x24], [0x2E, 0x2A, 0x4E3B, 0x6A5F, 0x24],
       [0x2E, 0x2A, 0x4F3A, 0x670D, 0x5668, 0x2E, 0x2A], [0x2E, 0x2A, 0x96FB, 0x8166, 0x2E, 0x2A],
       [0x2E, 0x2A, 0x28, 0x73, 0x65, 0x72, 0x76, 0x65, 0x72, 0x7C, 0x4EA4, 0x63DB, 0x5668, 0x7C, 0x8DEF, 0x7531, 0x5668, 0x29, 0x2E, 0x2A],
       [0x9632, 0x706B, 0x7246, 0x8A2D, 0x5099], [0x7DB2, 0x8DEF, 0x8A2D, 0x5099]]),
     (cat_data,
      [[0x2E, 0x2A, 0x6587, 0x4EF6, 0x2E, 0x2A], [0x2E, 0x2A, 0x6A94, 0x6848, 0x2E, 0x2A],
       [0x2E, 0x2A, 0x7D00, 0x9304, 0x2E, 0x2A], [0x2E, 0x2A, 0x5408, 0x7D04, 0x2E, 0x2A],
       [0x2E, 0x2A, 0x28, 0x73, 0x6F, 0x70, 0x7C, 0x5099, 0x4EFD, 0x7C, 0x65E5, 0x8A8C, 0x7C, 0x539F, 0x59CB, 0x78BC, 0x29, 0x2E, 0x2A],
       [0x4F5C, 0x696D, 0x6587, 0x4EF6], [0x96FB, 0x5B50, 0x7D00, 0x9304]]),
     (cat_personnel,
      [[0x2E, 0x2A, 0x4EBA, 0x54E1, 0x24], [0x2E, 0x2A, 0x54E1, 0x5DE5, 0x2E, 0x2A],
       [0x2E, 0x2A, 0x4F7F, 0x7528, 0x8005, 0x2E, 0x2A],
       [0x2E, 0x2A, 0x7BA1, 0x7406, 0x54E1, 0x2E, 0x2A], [0x5167, 0x90E8, 0x4EBA, 0x54E1],
       [0x5916, 0x90E8, 0x4EBA, 0x54E1], [0x627F, 0x8FA6, 0x4EBA]]),
     (cat_service,
      [[0x2E, 0x2A, 0x670D, 0x52D9, 0x2E, 0x2A], [0x2E, 0x2A, 0x61C9, 0x7528, 0x2E, 0x2A],
       [0x2E, 0x2A, 0x28, 0x61, 0x70, 0x69, 0x7C, 0x77, 0x65, 0x62, 0x7C, 0x7DB2, 0x7AD9, 0x29, 0x2E, 0x2A],
       [0x7DB2, 0x8DEF, 0x670D, 0x52D9], [0x96F2, 0x7AEF, 0x670D, 0x52D9],
       [0x61C9, 0x7528, 0x670D, 0x52D9]])]"

section \<open>\<open>EnhancedClassifierV3\<close>\<close>

text \<open>
  The attributes of an instance after construction.  \<open>data\<close> holds the training rows as
  (asset name, category); \<open>vectorizer\<close> tells whether the attribute is set; the centroid
  vectors themselves live in the similarity collaborator, \<open>category_vectors\<close> lists the
  categories that have one.
\<close>

record classifier_v3 =
  data :: "(str \<times> str) list"
  reserved_processor :: "(str \<times> str list) list"
  category_keywords :: "(str \<times> keyword_tiers) list"
  category_patterns :: "(str \<times> str list) list"
  exclusion_rules :: "(str \<times> exclusion_rule) list"
  vectorizer :: bool
  category_vectors :: "str list"

text \<open>
  \<open>any(keyword in reserved_word or reserved_word in keyword for keyword in tier)\<close>.
\<close>

definition found_in :: "str list \<Rightarrow> str \<Rightarrow> bool" where
  "found_in tier reserved_word \<longleftrightarrow>
     list_ex (\<lambda>keyword. contains keyword reserved_word \<or> contains reserved_word keyword) tier"

text \<open>One round of the loop over the reserved words: the state is (score, total_matches).\<close>

definition reserved_step :: "keyword_tiers \<Rightarrow> real \<times> nat \<Rightarrow> str \<Rightarrow> real \<times> nat" where
  "reserved_step keywords st reserved_word =
     (case st of (score, total_matches) \<Rightarrow>
        if found_in (strong keywords) reserved_word then (score + 4, total_matches + 1)
        else if found_in (medium keywords) reserved_word then (score + 3, total_matches + 1)
        else if found_in (weak keywords) reserved_word then (score + 2, total_matches + 1)
        else (score, total_matches))"

definition calculate_reserved_word_score :: "classifier_v3 \<Rightarrow> text_variants \<Rightarrow> str \<Rightarrow> real" where
  "calculate_reserved_word_score c tv category =
     (case map_of (category_keywords c) category of
        None \<Rightarrow> 0
      | Some keywords \<Rightarrow>
          if tv_reserved_words tv = [] then 0
          else (case foldl (reserved_step keywords) (0, 0) (tv_reserved_words tv) of
                  (score, total_matches) \<Rightarrow>
                    if 0 < total_matches
                    then min (score / real (length (tv_reserved_words tv))) 1
                    else 0))"

text \<open>
  One tier of the keyword score: every keyword whose lower-cased form occurs in the text
  adds the weight of the tier.
\<close>

definition keyword_hits :: "env \<Rightarrow> str \<Rightarrow> real \<Rightarrow> real \<Rightarrow> str list \<Rightarrow> real" where
  "keyword_hits e all_text w score tier =
     foldl (\<lambda>s keyword. if contains (lower e keyword) all_text then s + w else s) score tier"

definition keyword_text :: "env \<Rightarrow> text_variants \<Rightarrow> str" where
  "keyword_text e tv =
     lower e (join (ascii '' '')
       [cleaned tv, no_brackets tv, bracket_content tv,
        join (ascii '' '') (tv_all_tokens tv), join (ascii '' '') (tv_reserved_words tv)])"

definition max_possible_score :: "keyword_tiers \<Rightarrow> real" where
  "max_possible_score keywords =
     real (length (strong keywords)) * 3 + real (length (medium keywords)) * 2 +
     real (length (weak keywords)) * 1"

definition calculate_keyword_score :: "env \<Rightarrow> classifier_v3 \<Rightarrow> text_variants \<Rightarrow> str \<Rightarrow> real" where
  "calculate_keyword_score e c tv category =
     (case map_of (category_keywords c) category of
        None \<Rightarrow> 0
      | Some keywords \<Rightarrow>
          let all_text = keyword_text e tv;
              score = keyword_hits e all_text 1
                        (keyword_hits e all_text 2
                           (keyword_hits e all_text 3 0 (strong keywords)) (medium keywords))
                        (weak keywords)
          in if 0 < max_possible_score keywords then score / max_possible_score keywords else 0)"

definition pattern_texts :: "text_variants \<Rightarrow> str list" where
  "pattern_texts tv =
     [cleaned tv, no_brackets tv, bracket_content tv, lower_case tv,
      join (ascii '' '') (tv_reserved_words tv), join (ascii '' '') (tv_all_tokens tv)]"

definition calculate_pattern_score :: "env \<Rightarrow> classifier_v3 \<Rightarrow> text_variants \<Rightarrow> str \<Rightarrow> real" where
  "calculate_pattern_score e c tv category =
     (case map_of (category_patterns c) category of
        None \<Rightarrow> 0
      | Some patterns \<Rightarrow>
          let match_count =
                foldl (\<lambda>n pattern.
                         if list_ex (\<lambda>text. text \<noteq> [] \<and> re_search e pattern text) (pattern_texts tv)
                         then n + 1 else n) (0::nat) patterns
          in if patterns \<noteq> [] then real match_count / real (length patterns) else 0)"

definition similarity_text :: "text_variants \<Rightarrow> str" where
  "similarity_text tv =
     strip (join (ascii '' '')
       [cleaned tv, no_brackets tv, bracket_content tv, join (ascii '' '') (tv_all_tokens tv)])"

text \<open>The \<open>try\<close> block with its bare \<open>except\<close>: a raising collaborator yields 0.0.\<close>

definition calculate_similarity_score :: "env \<Rightarrow> classifier_v3 \<Rightarrow> text_variants \<Rightarrow> str \<Rightarrow> real" where
  "calculate_similarity_score e c tv category =
     (if \<not> vectorizer c \<or> category \<notin> set (category_vectors c) then 0
      else if similarity_text tv = [] then 0
      else (case vec_similarity e category (similarity_text tv) of
              Some similarity \<Rightarrow> similarity
            | None \<Rightarrow> 0))"

text \<open>
  The conditions of the six rule kinds.  An absent key never fires.  The substring tests
  read the lower-cased join of three text variants; the words of the rules are not
  lower-cased.
\<close>

definition rule_text :: "env \<Rightarrow> text_variants \<Rightarrow> str" where
  "rule_text e tv = lower e (join (ascii '' '') [cleaned tv, no_brackets tv, bracket_content tv])"

definition reserved_hit :: "str list option \<Rightarrow> str list \<Rightarrow> bool" where
  "reserved_hit rule reserved \<longleftrightarrow>
     (case rule of None \<Rightarrow> False | Some ws \<Rightarrow> list_ex (\<lambda>w. w \<in> set reserved) ws)"

definition compound_hit :: "(str \<times> str) list option \<Rightarrow> str list \<Rightarrow> str \<Rightarrow> bool" where
  "compound_hit rule reserved combined_text \<longleftrightarrow>
     (case rule of
        None \<Rightarrow> False
      | Some ps \<Rightarrow> list_ex (\<lambda>(reserved_word, condition).
                    reserved_word \<in> set reserved \<and> contains condition combined_text) ps)"

definition substring_hit :: "str list option \<Rightarrow> str \<Rightarrow> bool" where
  "substring_hit rule combined_text \<longleftrightarrow>
     (case rule of None \<Rightarrow> False | Some ws \<Rightarrow> list_ex (\<lambda>w. contains w combined_text) ws)"

definition apply_rules :: "exclusion_rule \<Rightarrow> str list \<Rightarrow> str \<Rightarrow> real \<Rightarrow> real" where
  "apply_rules rules reserved combined_text base_score =
     (if reserved_hit (include_reserved_words rules) reserved then base_score * 2.0
      else if reserved_hit (exclude_reserved_words rules) reserved then base_score * 0.2
      else if compound_hit (include_if_reserved_and_contains rules) reserved combined_text
        then base_score * 2.0
      else if compound_hit (exclude_if_reserved_and_contains rules) reserved combined_text
        then base_score * 0.2
      else if substring_hit (exclude_if_contains rules) combined_text then base_score * 0.3
      else if substring_hit (include_if_contains rules) combined_text then base_score * 1.5
      else base_score)"

definition apply_exclusion_rules ::
    "env \<Rightarrow> (str \<times> exclusion_rule) list \<Rightarrow> text_variants \<Rightarrow> str \<Rightarrow> real \<Rightarrow> real" where
  "apply_exclusion_rules e table tv category base_score =
     (case map_of table category of
        None \<Rightarrow> base_score
      | Some rules \<Rightarrow> apply_rules rules (tv_reserved_words tv) (rule_text e tv) base_score)"

text \<open>
  The scores are Python floats; they are modelled as real numbers, so rounding is left out.
  The increments of the sub-scores are small whole numbers.
\<close>

record category_score =
  total_score :: real
  reserved_score :: real
  keyword_score :: real
  pattern_score :: real
  similarity_score :: real

definition combined_score :: "real \<Rightarrow> real \<Rightarrow> real \<Rightarrow> real \<Rightarrow> real" where
  "combined_score r k p s = r * 0.4 + k * 0.25 + p * 0.2 + s * 0.15"

definition score_category :: "env \<Rightarrow> classifier_v3 \<Rightarrow> text_variants \<Rightarrow> str \<Rightarrow> category_score" where
  "score_category e c tv category =
     (let r = calculate_reserved_word_score c tv category;
          k = calculate_keyword_score e c tv category;
          p = calculate_pattern_score e c tv category;
          s = calculate_similarity_score e c tv category
      in \<lparr>total_score = apply_exclusion_rules e (exclusion_rules c) tv category (combined_score r k p s),
          reserved_score = r,
          keyword_score = k,
          pattern_score = p,
          similarity_score = s\<rparr>)"

text \<open>
  What a call can end with besides a result: the dictionary with the key \<open>error\<close> that both
  classifiers return for an empty training set, and the \<open>ValueError\<close> of \<open>max\<close> on an
  empty sequence.
\<close>

datatype error = NoTrainingData | ValueError

record result_v3 =
  input_text :: str
  processed_variants :: text_variants
  best_prediction :: str
  best_score :: real
  all_scores :: "(str \<times> category_score) list"
  sorted_scores :: "(str \<times> category_score) list"
  confidence :: real

definition classify_text :: "env \<Rightarrow> classifier_v3 \<Rightarrow> str \<Rightarrow> error + result_v3" where
  "classify_text e c text =
     (if data c = [] then Inl NoTrainingData
      else
        let tv = preprocess_text e (reserved_processor c) text;
            categories = unique (map snd (data c));
            category_scores = map (\<lambda>category. (category, score_category e c tv category)) categories
        in case max_by (\<lambda>x. total_score (snd x)) category_scores of
             None \<Rightarrow> Inl ValueError
           | Some best \<Rightarrow>
               Inr \<lparr>input_text = text,
                    processed_variants = tv,
                    best_prediction = fst best,
                    best_score = total_score (snd best),
                    all_scores = category_scores,
                    sorted_scores = sort_key (\<lambda>x. - total_score (snd x)) category_scores,
                    confidence = total_score (snd best)\<rparr>)"

section \<open>\<open>UltimateClassifier\<close>\<close>

record category_rule =
  rule_keywords :: "str list"
  patterns :: "str list"
  reserved_boost :: "str list option"
  exclude_if_has_reserved :: "str list option"
  weight :: real

definition category_rules_ult :: "(str \<times> category_rule) list" where
  "category_rules_ult =
    [(cat_software,
      \<lparr>rule_keywords =
          [[0x7CFB, 0x7D71], [0x8EDF, 0x9AD4], [0x61C9, 0x7528, 0x7A0B, 0x5F0F],
           [0x8CC7, 0x6599, 0x5EAB], [0x7A0B, 0x5F0F], ascii ''MySQL'', ascii ''Oracle'',
           ascii ''Windows'', ascii ''Linux'', [0x7BA1, 0x7406, 0x7CFB, 0x7D71]],
       patterns =
          [[0x2E, 0x2A, 0x7CFB, 0x7D71, 0x24], [0x2E, 0x2A, 0x8EDF, 0x9AD4, 0x24],
           [0x2E, 0x2A, 0x7A0B, 0x5F0F, 0x2E, 0x2A],
           [0x2E, 0x2A, 0x8CC7, 0x6599, 0x5EAB, 0x2E, 0x2A]],
       reserved_boost = Some
          [[0x8CC7, 0x6599, 0x5EAB, 0x7BA1, 0x7406, 0x7CFB, 0x7D71], ascii ''MySQL'',
           ascii ''Oracle'', ascii ''Windows'', ascii ''Linux'', [0x7BA1, 0x7406, 0x7CFB, 0x7D71]],
       exclude_if_has_reserved = None,
       weight = 1\<rparr>),
     (cat_physical,
      \<lparr>rule_keywords =
          [[0x8A2D, 0x5099], [0x786C, 0x9AD4], [0x4F3A, 0x670D, 0x5668], [0x4E3B, 0x6A5F],
           [0x9632, 0x706B, 0x7246], [0x7DB2, 0x8DEF], [0x5132, 0x5B58], [0x76E3, 0x63A7],
           [0x5BE6, 0x9AD4], [0x74B0, 0x5883], [0x8A2D, 0x65BD], [0x5834, 0x6240],
           [0x6A5F, 0x623F], [0x5A92, 0x9AD4], [0x53EF, 0x651C, 0x5F0F]],
       patterns =
          [[0x2E, 0x2A, 0x8A2D, 0x5099, 0x24], [0x2E, 0x2A, 0x4E3B, 0x6A5F, 0x24],
           [0x2E, 0x2A, 0x4F3A, 0x670D, 0x5668, 0x2E, 0x2A],
           [0x2E, 0x2A, 0x74B0, 0x5883, 0x2E, 0x2A], [0x2E, 0x2A, 0x8A2D, 0x65BD, 0x2E, 0x2A],
           [0x2E, 0x2A, 0x5834, 0x6240, 0x2E, 0x2A]],
       reserved_boost = Some
          [[0x9632, 0x706B, 0x7246, 0x8A2D, 0x5099], [0x7DB2, 0x8DEF, 0x8A2D, 0x5099],
           [0x5132, 0x5B58, 0x8A2D, 0x5099], [0x76E3, 0x63A7, 0x8A2D, 0x5099],
           [0x5B89, 0x5168, 0x8A2D, 0x5099],
           [0x53EF, 0x651C, 0x5F0F, 0x5132, 0x5B58, 0x5A92, 0x9AD4],
           [0x5132, 0x5B58, 0x5A92, 0x9AD4]],
       exclude_if_has_reserved = None,
       weight = 1\<rparr>),
     (cat_data,
      \<lparr>rule_keywords =
          [[0x8CC7, 0x6599], [0x6587, 0x4EF6], [0x6A94, 0x6848], [0x7D00, 0x9304],
           [0x5408, 0x7D04], [0x4F5C, 0x696D], [0x96FB, 0x5B50], [0x7A0B, 0x5E8F],
           [0x6280, 0x8853]],
       patterns =
          [[0x2E, 0x2A, 0x6587, 0x4EF6, 0x2E, 0x2A], [0x2E, 0x2A, 0x6A94, 0x6848, 0x2E, 0x2A],
           [0x2E, 0x2A, 0x7D00, 0x9304, 0x2E, 0x2A]],
       reserved_boost = Some
          [[0x4F5C, 0x696D, 0x6587, 0x4EF6], [0x96FB, 0x5B50, 0x7D00, 0x9304],
           [0x7A0B, 0x5E8F, 0x6587, 0x4EF6], [0x6280, 0x8853, 0x6587, 0x4EF6]],
       exclude_if_has_reserved = None,
       weight = 1\<rparr>),
     (cat_personnel,
      \<lparr>rule_keywords =
          [[0x4EBA, 0x54E1], [0x54E1, 0x5DE5], [0x4F7F, 0x7528, 0x8005], [0x7BA1, 0x7406, 0x54E1],
           [0x5167, 0x90E8], [0x5916, 0x90E8]],
       patterns =
          [[0x2E, 0x2A, 0x4EBA, 0x54E1, 0x24], [0x2E, 0x2A, 0x54E1, 0x5DE5, 0x2E, 0x2A],
           [0x2E, 0x2A, 0x7BA1, 0x7406, 0x54E1, 0x2E, 0x2A]],
       reserved_boost = Some
          [[0x5167, 0x90E8, 0x4EBA, 0x54E1], [0x5916, 0x90E8, 0x4EBA, 0x54E1],
           [0x7CFB, 0x7D71, 0x7BA1, 0x7406, 0x54E1]],
       exclude_if_has_reserved = Some
          [[0x4F5C, 0x696D, 0x6587, 0x4EF6], [0x96FB, 0x5B50, 0x7D00, 0x9304],
           [0x7A0B, 0x5E8F, 0x6587, 0x4EF6]],
       weight = 1\<rparr>),
     (cat_service,
      \<lparr>rule_keywords =
          [[0x670D, 0x52D9], [0x61C9, 0x7528], [0x7DB2, 0x8DEF], [0x96F2, 0x7AEF], ascii ''API''],
       patterns =
          [[0x2E, 0x2A, 0x670D, 0x52D9, 0x2E, 0x2A], [0x2E, 0x2A, 0x61C9, 0x7528, 0x2E, 0x2A]],
       reserved_boost = Some
          [[0x7DB2, 0x8DEF, 0x670D, 0x52D9], [0x96F2, 0x7AEF, 0x670D, 0x52D9],
           [0x61C9, 0x7528, 0x670D, 0x52D9]],
       exclude_if_has_reserved = None,
       weight = 1\<rparr>)]"

record classifier_ult =
  u_data :: "(str \<times> str) list"
  u_lexicon :: "(str \<times> str list) list"
  category_rules :: "(str \<times> category_rule) list"
  u_vectorizer :: bool
  u_category_vectors :: "str list"

text \<open>The five parts of \<open>calculate_score\<close>, in the order of the source.\<close>

definition ult_reserved_score :: "category_rule \<Rightarrow> processed_ult \<Rightarrow> real" where
  "ult_reserved_score rules pt =
     (case reserved_boost rules of
        None \<Rightarrow> 0
      | Some boost \<Rightarrow>
          foldl (\<lambda>s boost_word. if boost_word \<in> set (u_reserved_words pt) then s + 3 else s) 0 boost)"

definition ult_keyword_score :: "env \<Rightarrow> category_rule \<Rightarrow> processed_ult \<Rightarrow> real" where
  "ult_keyword_score e rules pt =
     foldl (\<lambda>s keyword. if contains (lower e keyword) (lower e (u_processed_text pt)) then s + 1 else s)
       0 (rule_keywords rules)"

definition ult_pattern_score :: "env \<Rightarrow> category_rule \<Rightarrow> processed_ult \<Rightarrow> real" where
  "ult_pattern_score e rules pt =
     foldl (\<lambda>s pattern. if re_search e pattern (u_original pt) then s + 1 else s) 0 (patterns rules)"

definition ult_similarity_score :: "env \<Rightarrow> classifier_ult \<Rightarrow> processed_ult \<Rightarrow> str \<Rightarrow> real" where
  "ult_similarity_score e c pt category =
     (if u_vectorizer c \<and> category \<in> set (u_category_vectors c)
      then (case vec_similarity e category (u_processed_text pt) of
              Some similarity \<Rightarrow> similarity
            | None \<Rightarrow> 0)
      else 0)"

definition ult_exclude_penalty :: "category_rule \<Rightarrow> processed_ult \<Rightarrow> real" where
  "ult_exclude_penalty rules pt =
     (case exclude_if_has_reserved rules of
        None \<Rightarrow> 0
      | Some excl \<Rightarrow>
          foldl (\<lambda>p exclude_word. if exclude_word \<in> set (u_reserved_words pt) then 2 else p) 0 excl)"

definition calculate_score :: "env \<Rightarrow> classifier_ult \<Rightarrow> processed_ult \<Rightarrow> str \<Rightarrow> real" where
  "calculate_score e c pt category =
     (case map_of (category_rules c) category of
        None \<Rightarrow> 0
      | Some rules \<Rightarrow>
          max 0 (combined_score (ult_reserved_score rules pt) (ult_keyword_score e rules pt)
                   (ult_pattern_score e rules pt) (ult_similarity_score e c pt category)
                 - ult_exclude_penalty rules pt))"

record result_ult =
  r_input_text :: str
  predicted_category :: str
  r_confidence :: real
  r_all_scores :: "(str \<times> real) list"
  r_sorted_scores :: "(str \<times> real) list"
  processed_info :: processed_ult

definition classify :: "env \<Rightarrow> classifier_ult \<Rightarrow> str \<Rightarrow> error + result_ult" where
  "classify e c text =
     (if u_data c = [] then Inl NoTrainingData
      else
        let pt = process_text_with_reserved_words e (u_lexicon c) text;
            categories = unique (map snd (u_data c));
            category_scores = map (\<lambda>category. (category, calculate_score e c pt category)) categories
        in case max_by snd category_scores of
             None \<Rightarrow> Inl ValueError
           | Some best \<Rightarrow>
               Inr \<lparr>r_input_text = text,
                    predicted_category = fst best,
                    r_confidence = snd best,
                    r_all_scores = category_scores,
                    r_sorted_scores = sort_key (\<lambda>x. - snd x) category_scores,
                    processed_info = pt\<rparr>)"


section \<open>Preprocessing of the embedding systems\<close>

text \<open>
  \<open>EnhancedEmbeddingSystem.preprocess_text\<close> and its copy in
  \<open>LightweightEmbeddingSystem\<close>.  Every code point outside the class
  \<open>[\u4e00-\u9fa5a-zA-Z0-9\s\-\(\)]\<close> becomes a space, whitespace is collapsed and
  stripped, the text is cut into words, and a stripped word is kept when it is longer than
  one code point or starts with an ASCII letter or digit.  When no word is kept, the cleaned
  text is returned.
\<close>

definition kept_char :: "nat \<Rightarrow> bool" where
  "kept_char c \<longleftrightarrow>
     (0x4E00 \<le> c \<and> c \<le> 0x9FA5) \<or> (0x61 \<le> c \<and> c \<le> 0x7A) \<or> (0x41 \<le> c \<and> c \<le> 0x5A) \<or>
     (0x30 \<le> c \<and> c \<le> 0x39) \<or> isspace c \<or> c = 0x2D \<or> c = 0x28 \<or> c = 0x29"

definition ascii_alnum :: "nat \<Rightarrow> bool" where
  "ascii_alnum c \<longleftrightarrow>
     (0x61 \<le> c \<and> c \<le> 0x7A) \<or> (0x41 \<le> c \<and> c \<le> 0x5A) \<or> (0x30 \<le> c \<and> c \<le> 0x39)"

definition embedding_cleaned :: "str \<Rightarrow> str" where
  "embedding_cleaned text =
     strip (collapse_ws (map (\<lambda>c. if kept_char c then c else 0x20) text))"

definition embedding_preprocess_text :: "env \<Rightarrow> str \<Rightarrow> str" where
  "embedding_preprocess_text e text =
     (let cleaned_text = embedding_cleaned text;
          words = jieba_cut e cleaned_text;
          meaningful_words =
            filter (\<lambda>word. 1 < length word \<or> (word \<noteq> [] \<and> ascii_alnum (hd word)))
              (map strip words);
          processed = join (ascii '' '') meaningful_words
      in if processed \<noteq> [] then processed else cleaned_text)"

section \<open>Calls on an instance\<close>

text \<open>
  The constructors register every lexicon phrase in the process-wide dictionary of the
  word segmenter (\<open>jieba.add_word(phrase, freq=10000)\<close>).  That dictionary is the only state
  outside the instance that the classifiers touch, so a call is modelled on a world made of
  the instance and the dictionary; the libraries are given the dictionary as it stands.
\<close>

type_synonym jieba_dict = "str \<Rightarrow> nat option"

record 'a world =
  self :: 'a
  jieba :: jieba_dict

definition register_reserved_words :: "(str \<times> str list) list \<Rightarrow> jieba_dict \<Rightarrow> jieba_dict" where
  "register_reserved_words lexicon d = foldl (\<lambda>d phrase. d(phrase \<mapsto> 10000)) d (map fst lexicon)"

text \<open>
  The constructor of \<open>ReservedWordProcessor\<close>, as far as the world is concerned: the
  instance holds the dictionary of reserved words, and every phrase is registered.
\<close>

definition new_reserved_word_processor ::
    "(str \<times> str list) list \<Rightarrow> jieba_dict \<Rightarrow> (str \<times> str list) list world" where
  "new_reserved_word_processor lexicon d =
     \<lparr>self = lexicon, jieba = register_reserved_words lexicon d\<rparr>"



section \<open>Properties named by the specification\<close>




text \<open>
  The order of the rules as the specification words it: reserved include, reserved
  exclude, the same two tests on a substring, then the compound rules; the first rule that
  matches fires.
\<close>

definition apply_rules_spec_order :: "exclusion_rule \<Rightarrow> str list \<Rightarrow> str \<Rightarrow> real \<Rightarrow> real" where
  "apply_rules_spec_order rules reserved combined_text base_score =
     (if reserved_hit (include_reserved_words rules) reserved then base_score * 2.0
      else if reserved_hit (exclude_reserved_words rules) reserved then base_score * 0.2
      else if substring_hit (include_if_contains rules) combined_text then base_score * 1.5
      else if substring_hit (exclude_if_contains rules) combined_text then base_score * 0.3
      else if compound_hit (include_if_reserved_and_contains rules) reserved combined_text
        then base_score * 2.0
      else if compound_hit (exclude_if_reserved_and_contains rules) reserved combined_text
        then base_score * 0.2
      else base_score)"

text \<open>
  The rules of the v3 classifier as an ordered list of (condition, multiplier), in the order
  of the source.
\<close>

definition rule_chain :: "exclusion_rule \<Rightarrow> str list \<Rightarrow> str \<Rightarrow> (bool \<times> real) list" where
  "rule_chain rules reserved combined_text =
     [(reserved_hit (include_reserved_words rules) reserved, 2.0),
      (reserved_hit (exclude_reserved_words rules) reserved, 0.2),
      (compound_hit (include_if_reserved_and_contains rules) reserved combined_text, 2.0),
      (compound_hit (exclude_if_reserved_and_contains rules) reserved combined_text, 0.2),
      (substring_hit (exclude_if_contains rules) combined_text, 0.3),
      (substring_hit (include_if_contains rules) combined_text, 1.5)]"

definition first_multiplier :: "(bool \<times> real) list \<Rightarrow> real" where
  "first_multiplier chain = (case find fst chain of Some (_, m) \<Rightarrow> m | None \<Rightarrow> 1)"

section \<open>Assumptions on the collaborators\<close>

text \<open>
  A string is blank when it holds nothing but spaces (U+0020).  Lower-casing leaves a blank
  string as it is and turns no other string into a blank one.
\<close>

definition blank :: "str \<Rightarrow> bool" where
  "blank s \<longleftrightarrow> set s \<subseteq> {0x20}"

definition lower_sane :: "env \<Rightarrow> bool" where
  "lower_sane e \<longleftrightarrow> (\<forall>s. blank s \<longrightarrow> lower e s = s) \<and> (\<forall>s. blank (lower e s) \<longrightarrow> blank s)"

text \<open>
  Tables in which no keyword is blank, and rules of \<open>UltimateClassifier\<close> whose keywords
  are not blank and whose patterns do not match the empty string.  The tables of the source
  are of this kind.
\<close>

definition keywords_not_blank :: "(str \<times> keyword_tiers) list \<Rightarrow> bool" where
  "keywords_not_blank table \<longleftrightarrow>
     (\<forall>x\<in>set table. \<forall>w\<in>set (strong (snd x) @ medium (snd x) @ weak (snd x)). \<not> blank w)"

definition rules_quiet_on_empty :: "env \<Rightarrow> (str \<times> category_rule) list \<Rightarrow> bool" where
  "rules_quiet_on_empty e table \<longleftrightarrow>
     (\<forall>x\<in>set table. (\<forall>w\<in>set (rule_keywords (snd x)). \<not> blank w) \<and>
                     (\<forall>p\<in>set (patterns (snd x)). \<not> re_search e p []))"

text \<open>
  The vector of the empty text is the zero vector, whose cosine with any centroid is 0.0,
  unless the vectorizer raises.
\<close>

definition similarity_zero_on_empty :: "env \<Rightarrow> bool" where
  "similarity_zero_on_empty e \<longleftrightarrow>
     (\<forall>c. vec_similarity e c [] = None \<or> vec_similarity e c [] = Some 0)"


text \<open>TF-IDF vectors have no negative entry, so a cosine similarity is not negative.\<close>

definition similarity_nonneg :: "env \<Rightarrow> bool" where
  "similarity_nonneg e \<longleftrightarrow> (\<forall>c s v. vec_similarity e c s = Some v \<longrightarrow> 0 \<le> v)"

text \<open>
  Stand-ins for evaluating the model on concrete inputs: a segmenter that returns its input
  as one token, no part-of-speech tags, lower-casing of the ASCII letters only, no decimal
  digit beyond ASCII, a regular-expression engine that finds nothing and a vectorizer whose
  every call raises.
\<close>

definition ascii_lower :: "nat \<Rightarrow> nat" where
  "ascii_lower c = (if 0x41 \<le> c \<and> c \<le> 0x5A then c + 0x20 else c)"

definition env0 :: env where
  "env0 = \<lparr>jieba_cut = (\<lambda>s. [s]),
           pseg_cut = (\<lambda>s. []),
           lower = map ascii_lower,
           unicode_Nd = (\<lambda>c. False),
           re_search = (\<lambda>p s. False),
           vec_similarity = (\<lambda>c s. None)\<rparr>"

text \<open>
  Instances for evaluation: the tables of the source, a training set of three rows, and no
  fitted vectorizer.
\<close>

definition sample_data :: "(str \<times> str) list" where
  "sample_data =
     [([0x9632, 0x706B, 0x7246, 0x8A2D, 0x5099], cat_physical),
      (ascii ''MySQL'', cat_software),
      ([0x76E3, 0x63A7, 0x8A2D, 0x5099], cat_physical)]"

definition sample_v3 :: classifier_v3 where
  "sample_v3 = \<lparr>data = sample_data,
               reserved_processor = reserved_words_v3,
               category_keywords = category_keywords_v3,
               category_patterns = category_patterns_v3,
               exclusion_rules = exclusion_rules_v3,
               vectorizer = True,
               category_vectors = [cat_physical, cat_software]\<rparr>"

definition sample_ult :: classifier_ult where
  "sample_ult = \<lparr>u_data = sample_data,
                u_lexicon = reserved_words_ult,
                category_rules = category_rules_ult,
                u_vectorizer = True,
                u_category_vectors = [cat_physical, cat_software]\<rparr>"


section \<open>Example inputs\<close>

text \<open>
  Phrases of the lexicon used as inputs below, with their meaning: "database management
  system" (seven code points) and the two phrases it contains, "management system" and
  "database"; "firewall device" with its parts "firewall" and "device"; "machine room";
  "operation document".
\<close>

definition phrase_dbms :: str where
  "phrase_dbms = [0x8CC7, 0x6599, 0x5EAB, 0x7BA1, 0x7406, 0x7CFB, 0x7D71]"

definition phrase_management_system :: str where
  "phrase_management_system = [0x7BA1, 0x7406, 0x7CFB, 0x7D71]"

definition phrase_database :: str where
  "phrase_database = [0x8CC7, 0x6599, 0x5EAB]"

definition phrase_firewall_device :: str where
  "phrase_firewall_device = [0x9632, 0x706B, 0x7246, 0x8A2D, 0x5099]"

definition phrase_firewall :: str where
  "phrase_firewall = [0x9632, 0x706B, 0x7246]"

definition phrase_device :: str where
  "phrase_device = [0x8A2D, 0x5099]"

definition phrase_machine_room :: str where
  "phrase_machine_room = [0x6A5F, 0x623F]"


definition phrase_operation_document :: str where
  "phrase_operation_document = [0x4F5C, 0x696D, 0x6587, 0x4EF6]"

text \<open>
  A rule dictionary with one compound exclusion rule ("firewall" together with "device") and
  one substring inclusion rule ("device"), to tell the orders of evaluation apart.
\<close>

definition compound_and_substring_rule :: exclusion_rule where
  "compound_and_substring_rule =
     \<lparr>include_reserved_words = None,
      exclude_reserved_words = None,
      include_if_reserved_and_contains = None,
      exclude_if_reserved_and_contains = Some [(phrase_firewall, phrase_device)],
      exclude_if_contains = None,
      include_if_contains = Some [phrase_device]\<rparr>"

section \<open>Rule tables with one rule removed\<close>

text \<open>
  The rule dictionary of one category without its key \<open>include_reserved_words\<close>, or without
  its key \<open>exclude_reserved_words\<close>; the other categories keep their rules.
\<close>

definition del_include :: "exclusion_rule \<Rightarrow> exclusion_rule" where
  "del_include r = r\<lparr>include_reserved_words := None\<rparr>"

definition del_exclude :: "exclusion_rule \<Rightarrow> exclusion_rule" where
  "del_exclude r = r\<lparr>exclude_reserved_words := None\<rparr>"

definition without_rule ::
    "(exclusion_rule \<Rightarrow> exclusion_rule) \<Rightarrow> str \<Rightarrow> (str \<times> exclusion_rule) list \<Rightarrow> (str \<times> exclusion_rule) list" where
  "without_rule del category table = map (\<lambda>(c, r). (c, if c = category then del r else r)) table"

section \<open>Evaluating the segmenters\<close>

text \<open>
  The phrases of the two dictionaries in the order the loops try them, and the found
  phrases in general: every phrase that occurs in the original text, in that order.
\<close>

lemma sorted_keys_v3:
  "sorted_by_len_desc (map fst reserved_words_v3) =
    [ascii ''SQL Server'', ascii ''Microsoft'', phrase_dbms,
     [0x53EF, 0x651C, 0x5F0F, 0x5132, 0x5B58, 0x5A92, 0x9AD4], ascii ''Windows'',
     [0x5099, 0x4EFD, 0x7BA1, 0x7406, 0x7CFB, 0x7D71], [0x76E3, 0x63A7, 0x7BA1, 0x7406, 0x7CFB, 0x7D71],
     ascii ''Oracle'', ascii ''VMware'', ascii ''Docker'',
     [0x7DB2, 0x8DEF, 0x9632, 0x706B, 0x7246], phrase_firewall_device, ascii ''MySQL'', ascii ''Linux'',
     [0x4F5C, 0x696D, 0x7CFB, 0x7D71], phrase_management_system, [0x5132, 0x5B58, 0x5A92, 0x9AD4],
     [0x61C9, 0x7528, 0x7A0B, 0x5F0F], [0x7DB2, 0x8DEF, 0x8A2D, 0x5099],
     [0x5167, 0x90E8, 0x4EBA, 0x54E1], [0x5916, 0x90E8, 0x4EBA, 0x54E1],
     [0x4F5C, 0x696D, 0x6587, 0x4EF6], [0x96FB, 0x5B50, 0x7D00, 0x9304],
     [0x7A0B, 0x5E8F, 0x6587, 0x4EF6], [0x6280, 0x8853, 0x6587, 0x4EF6],
     [0x64CD, 0x4F5C, 0x624B, 0x518A], [0x7DB2, 0x8DEF, 0x670D, 0x52D9],
     [0x61C9, 0x7528, 0x670D, 0x52D9], [0x8CC7, 0x6599, 0x670D, 0x52D9],
     [0x96F2, 0x7AEF, 0x670D, 0x52D9], [0x5132, 0x5B58, 0x8A2D, 0x5099],
     [0x5B89, 0x5168, 0x8A2D, 0x5099], [0x76E3, 0x63A7, 0x8A2D, 0x5099],
     [0x8CC7, 0x6599, 0x4E2D, 0x5FC3], phrase_firewall, phrase_database,
     [0x4F3A, 0x670D, 0x5668], [0x865B, 0x64EC, 0x6A5F], [0x5BB9, 0x5668, 0x5316],
     [0x627F, 0x8FA6, 0x4EBA], [0x7BA1, 0x7406, 0x54E1], [0x4F7F, 0x7528, 0x8005],
     [0x8FA6, 0x516C, 0x5BA4], [0x6703, 0x8B70, 0x5BA4],
     ascii ''API'', ascii ''SOP'', ascii ''ERP'', ascii ''CRM'', phrase_machine_room]"
  by (simp add: sorted_by_len_desc_def reserved_words_v3_def ascii_def phrase_dbms_def
      phrase_firewall_device_def phrase_management_system_def phrase_firewall_def
      phrase_database_def phrase_machine_room_def)

lemma sorted_keys_ult:
  "sorted_by_len_desc (map fst reserved_words_ult) =
    [phrase_dbms,
     [0x53EF, 0x651C, 0x5F0F, 0x5132, 0x5B58, 0x5A92, 0x9AD4],
     ascii ''Windows'',
     ascii ''Oracle'',
     phrase_firewall_device,
     [0x8CC7, 0x6599, 0x5EAB, 0x7CFB, 0x7D71],
     [0x7CFB, 0x7D71, 0x7BA1, 0x7406, 0x54E1],
     ascii ''Linux'',
     ascii ''MySQL'',
     [0x7DB2, 0x8DEF, 0x8A2D, 0x5099],
     [0x5132, 0x5B58, 0x8A2D, 0x5099],
     [0x76E3, 0x63A7, 0x8A2D, 0x5099],
     [0x5B89, 0x5168, 0x8A2D, 0x5099],
     phrase_management_system,
     [0x5167, 0x90E8, 0x4EBA, 0x54E1],
     [0x5916, 0x90E8, 0x4EBA, 0x54E1],
     [0x4F5C, 0x696D, 0x6587, 0x4EF6],
     [0x96FB, 0x5B50, 0x7D00, 0x9304],
     [0x7A0B, 0x5E8F, 0x6587, 0x4EF6],
     [0x6280, 0x8853, 0x6587, 0x4EF6],
     [0x7DB2, 0x8DEF, 0x670D, 0x52D9],
     [0x96F2, 0x7AEF, 0x670D, 0x52D9],
     [0x61C9, 0x7528, 0x670D, 0x52D9],
     [0x5132, 0x5B58, 0x5A92, 0x9AD4],
     [0x4F5C, 0x696D, 0x7CFB, 0x7D71]]"
  by (simp add: sorted_by_len_desc_def reserved_words_ult_def ascii_def phrase_dbms_def
      phrase_firewall_device_def phrase_management_system_def)

lemmas string_eval = ascii_def startswith_def replace_def str_of_nat.simps
  phrase_dbms_def phrase_management_system_def phrase_database_def phrase_firewall_device_def
  phrase_firewall_def phrase_device_def phrase_machine_room_def phrase_operation_document_def

lemma extract_loop_v3_dbms:
  "extract_loop placeholder_v3 (map fst reserved_words_v3) phrase_dbms =
     ([phrase_dbms, phrase_management_system, phrase_database], ascii '' [RESERVED_1] '')"
  unfolding extract_loop_def sorted_keys_v3
  by (simp add: extract_step_def placeholder_v3_def string_eval)

lemma extract_loop_ult_dbms:
  "extract_loop placeholder_ult (map fst reserved_words_ult) phrase_dbms =
     ([phrase_dbms, phrase_management_system], ascii '' [RESERVED] '')"
  unfolding extract_loop_def sorted_keys_ult
  by (simp add: extract_step_def placeholder_ult_def string_eval)

lemma extract_loop_ult_firewall_device:
  "extract_loop placeholder_ult (map fst reserved_words_ult) phrase_firewall_device =
     ([phrase_firewall_device], ascii '' [RESERVED] '')"
  unfolding extract_loop_def sorted_keys_ult
  by (simp add: extract_step_def placeholder_ult_def string_eval)

lemma process_ult_firewall_device:
  "process_text_with_reserved_words e reserved_words_ult phrase_firewall_device =
     \<lparr>u_original = phrase_firewall_device,
      u_reserved_words = [phrase_firewall_device],
      u_remaining_words = [],
      u_expanded_tokens = [phrase_firewall, phrase_device],
      u_all_tokens = [phrase_firewall, phrase_device],
      u_processed_text = phrase_firewall @ ascii '' '' @ phrase_device\<rparr>"
proof -
  have "strip (replace (ascii '' [RESERVED] '') (ascii ''[RESERVED]'') []) = []"
    by (simp add: strip_def isspace_def string_eval)
  moreover have "map_of reserved_words_ult phrase_firewall_device = Some [phrase_firewall, phrase_device]"
    by (simp add: reserved_words_ult_def string_eval)
  ultimately show ?thesis
    by (simp add: process_text_with_reserved_words_def extract_loop_ult_firewall_device)
qed

lemma found_is_filter_aux:
  "fst (foldl (extract_step ph text) (found, remaining) ks) =
     found @ filter (\<lambda>p. contains p text) ks"
  by (induction ks arbitrary: found remaining) (simp_all add: extract_step_def Let_def)

lemma found_is_filter:
  "fst (extract_loop ph keys text) = filter (\<lambda>p. contains p text) (sorted_by_len_desc keys)"
  by (simp add: extract_loop_def found_is_filter_aux)

text \<open>The segmenter and the text variants of the v3 classifier on two phrases.\<close>

lemma strip_placeholder_1: "strip (ascii '' [RESERVED_1] '') = ascii ''[RESERVED_1]''"
  by (simp add: strip_def isspace_def ascii_def)

lemma strip_placeholders_1: "strip_placeholders nd (ascii ''[RESERVED_1]'') = []"
  by (simp add: match_placeholder_def re_digit_def ascii_def startswith_def)

lemma extract_loop_v3_opdoc:
  "extract_loop placeholder_v3 (map fst reserved_words_v3) phrase_operation_document =
     ([phrase_operation_document], ascii '' [RESERVED_1] '')"
  unfolding extract_loop_def sorted_keys_v3
  by (simp add: extract_step_def placeholder_v3_def string_eval)

lemma process_v3_opdoc:
  "process_with_reserved_words e reserved_words_v3 phrase_operation_document =
     \<lparr>reserved_words = [phrase_operation_document], regular_words = [],
      all_tokens = [phrase_operation_document], original_text = phrase_operation_document\<rparr>"
proof -
  have "ascii ''[RESERVED_1]'' \<noteq> []" by (simp add: ascii_def)
  moreover have "strip [] = []" by (simp add: strip_def)
  ultimately show ?thesis
    by (simp add: process_with_reserved_words_def extract_reserved_words_def
        extract_loop_v3_opdoc strip_placeholder_1 strip_placeholders_1 Let_def)
qed

lemma clean_opdoc:
  "strip phrase_operation_document = phrase_operation_document"
  "collapse_ws phrase_operation_document = phrase_operation_document"
  "remove_brackets phrase_operation_document = phrase_operation_document"
  "bracket_content_of phrase_operation_document = []"
  "remove_ws phrase_operation_document = phrase_operation_document"
  by (simp_all add: strip_def isspace_def phrase_operation_document_def bracket_content_of_def
      remove_ws_def)

lemma preprocess_opdoc:
  "preprocess_text env0 reserved_words_v3 phrase_operation_document =
     \<lparr>original = phrase_operation_document,
      cleaned = phrase_operation_document,
      no_brackets = phrase_operation_document,
      bracket_content = [],
      lower_case = phrase_operation_document,
      no_spaces = phrase_operation_document,
      tv_reserved_words = [phrase_operation_document],
      tv_regular_words = [],
      tv_all_tokens = [phrase_operation_document],
      traditional_words = [phrase_operation_document],
      traditional_words_filtered = [phrase_operation_document],
      pos_tags = []\<rparr>"
proof -
  have "map ascii_lower phrase_operation_document = phrase_operation_document"
    by (simp add: ascii_lower_def phrase_operation_document_def)
  moreover have "1 < length (strip phrase_operation_document) \<and>
      strip phrase_operation_document \<notin> set stopwords"
    unfolding clean_opdoc by (simp add: phrase_operation_document_def stopwords_def)
  ultimately show ?thesis
    by (simp add: preprocess_text_def clean_opdoc process_v3_opdoc env0_def Let_def)
qed

lemma extract_loop_v3_firewall_device:
  "extract_loop placeholder_v3 (map fst reserved_words_v3) phrase_firewall_device =
     ([phrase_firewall_device, phrase_firewall], ascii '' [RESERVED_1] '')"
  unfolding extract_loop_def sorted_keys_v3
  by (simp add: extract_step_def placeholder_v3_def string_eval)

lemma process_v3_firewall_device:
  "process_with_reserved_words e reserved_words_v3 phrase_firewall_device =
     \<lparr>reserved_words = [phrase_firewall_device, phrase_firewall], regular_words = [],
      all_tokens = [phrase_firewall_device, phrase_firewall],
      original_text = phrase_firewall_device\<rparr>"
proof -
  have "ascii ''[RESERVED_1]'' \<noteq> []" by (simp add: ascii_def)
  moreover have "strip [] = []" by (simp add: strip_def)
  ultimately show ?thesis
    by (simp add: process_with_reserved_words_def extract_reserved_words_def
        extract_loop_v3_firewall_device strip_placeholder_1 strip_placeholders_1 Let_def)
qed

lemma clean_firewall_device:
  "strip phrase_firewall_device = phrase_firewall_device"
  "collapse_ws phrase_firewall_device = phrase_firewall_device"
  "remove_brackets phrase_firewall_device = phrase_firewall_device"
  "bracket_content_of phrase_firewall_device = []"
  by (simp_all add: strip_def isspace_def phrase_firewall_device_def bracket_content_of_def)

lemma rule_inputs_firewall_device:
  "tv_reserved_words (preprocess_text env0 reserved_words_v3 phrase_firewall_device) =
     [phrase_firewall_device, phrase_firewall]"
  "rule_text env0 (preprocess_text env0 reserved_words_v3 phrase_firewall_device) =
     phrase_firewall_device @ ascii '' '' @ phrase_firewall_device @ ascii '' ''"
  by (simp_all add: preprocess_text_def clean_firewall_device process_v3_firewall_device
      rule_text_def env0_def Let_def)
    (simp add: ascii_lower_def phrase_firewall_device_def ascii_def)

lemma extract_loop_ult_oracle_mysql:
  "extract_loop placeholder_ult (map fst reserved_words_ult) (ascii ''Oracle MySQL'') =
     ([ascii ''Oracle'', ascii ''MySQL''], ascii '' [RESERVED]   [RESERVED] '')"
  unfolding extract_loop_def sorted_keys_ult
  by (simp add: extract_step_def placeholder_ult_def string_eval)

lemma reserved_ult_oracle_mysql:
  "u_reserved_words (process_text_with_reserved_words e reserved_words_ult (ascii ''Oracle MySQL'')) =
     [ascii ''Oracle'', ascii ''MySQL'']"
  by (simp add: process_text_with_reserved_words_def extract_loop_ult_oracle_mysql Let_def)

text \<open>Entries of the rule tables.\<close>

lemma physical_rule_ult:
  "map_of category_rules_ult cat_physical =
     Some \<lparr>rule_keywords =
          [[0x8A2D, 0x5099], [0x786C, 0x9AD4], [0x4F3A, 0x670D, 0x5668], [0x4E3B, 0x6A5F],
           [0x9632, 0x706B, 0x7246], [0x7DB2, 0x8DEF], [0x5132, 0x5B58], [0x76E3, 0x63A7],
           [0x5BE6, 0x9AD4], [0x74B0, 0x5883], [0x8A2D, 0x65BD], [0x5834, 0x6240], [0x6A5F, 0x623F],
           [0x5A92, 0x9AD4], [0x53EF, 0x651C, 0x5F0F]],
       patterns =
          [[0x2E, 0x2A, 0x8A2D, 0x5099, 0x24], [0x2E, 0x2A, 0x4E3B, 0x6A5F, 0x24],
           [0x2E, 0x2A, 0x4F3A, 0x670D, 0x5668, 0x2E, 0x2A], [0x2E, 0x2A, 0x74B0, 0x5883, 0x2E, 0x2A],
           [0x2E, 0x2A, 0x8A2D, 0x65BD, 0x2E, 0x2A], [0x2E, 0x2A, 0x5834, 0x6240, 0x2E, 0x2A]],
       reserved_boost = Some
          [[0x9632, 0x706B, 0x7246, 0x8A2D, 0x5099], [0x7DB2, 0x8DEF, 0x8A2D, 0x5099],
           [0x5132, 0x5B58, 0x8A2D, 0x5099], [0x76E3, 0x63A7, 0x8A2D, 0x5099],
           [0x5B89, 0x5168, 0x8A2D, 0x5099],
           [0x53EF, 0x651C, 0x5F0F, 0x5132, 0x5B58, 0x5A92, 0x9AD4], [0x5132, 0x5B58, 0x5A92, 0x9AD4]],
       exclude_if_has_reserved = None,
       weight = 1\<rparr>"
  by (simp add: category_rules_ult_def cat_software_def cat_physical_def)

lemma software_boost_ult:
  "reserved_boost (the (map_of category_rules_ult cat_software)) =
     Some [phrase_dbms, ascii ''MySQL'', ascii ''Oracle'', ascii ''Windows'', ascii ''Linux'',
           phrase_management_system]"
  by (simp add: category_rules_ult_def phrase_dbms_def phrase_management_system_def)

lemma data_rule_v3:
  "map_of (exclusion_rules sample_v3) cat_data =
     Some \<lparr>include_reserved_words = Some
          [[0x4F5C, 0x696D, 0x6587, 0x4EF6], [0x96FB, 0x5B50, 0x7D00, 0x9304],
           [0x7A0B, 0x5E8F, 0x6587, 0x4EF6], [0x6280, 0x8853, 0x6587, 0x4EF6],
           [0x64CD, 0x4F5C, 0x624B, 0x518A]],
       exclude_reserved_words = None,
       include_if_reserved_and_contains = None,
       exclude_if_reserved_and_contains = None,
       exclude_if_contains = None,
       include_if_contains = Some
          [[0x6587, 0x4EF6], [0x6A94, 0x6848], [0x7D00, 0x9304], [0x5408, 0x7D04], [0x4F5C, 0x696D],
           ascii ''SOP'']\<rparr>"
  by (simp add: sample_v3_def exclusion_rules_v3_def cat_data_def cat_personnel_def)

lemma personnel_rule_v3:
  "map_of (exclusion_rules sample_v3) cat_personnel =
     Some \<lparr>include_reserved_words = None,
       exclude_reserved_words = Some
          [[0x4F5C, 0x696D, 0x6587, 0x4EF6], [0x96FB, 0x5B50, 0x7D00, 0x9304],
           [0x7A0B, 0x5E8F, 0x6587, 0x4EF6], [0x6280, 0x8853, 0x6587, 0x4EF6]],
       include_if_reserved_and_contains = None,
       exclude_if_reserved_and_contains = None,
       exclude_if_contains = Some
          [[0x6587, 0x4EF6], [0x6A94, 0x6848], [0x8CC7, 0x6599], [0x7A0B, 0x5E8F], [0x7CFB, 0x7D71],
           [0x8A2D, 0x5099], [0x670D, 0x52D9], [0x8CC7, 0x6599, 0x5EAB]],
       include_if_contains = None\<rparr>"
  by (simp add: sample_v3_def exclusion_rules_v3_def cat_data_def cat_personnel_def)

section \<open>Longest-match precedence\<close>

text \<open>
  Claim C1 says that a phrase A contained in a longer phrase B does not match again inside
  the span of B once B has been replaced by its placeholder.  Both segmenters test
  \<open>reserved_phrase in text\<close> on the original text, not on the remaining text, so the
  placeholder protects nothing: on the input "database management system" the
  \<open>ReservedWordProcessor\<close> records that phrase and, after it, "management system" and
  "database", which occur only inside it; \<open>UltimateClassifier\<close> records "management
  system" as well.  The remaining text holds a single placeholder.
\<close>

theorem nested_phrases_are_matched_again:
  "contains phrase_management_system phrase_dbms \<and> contains phrase_database phrase_dbms \<and>
   extract_reserved_words reserved_words_v3 phrase_dbms =
     \<lparr>found_reserved = [phrase_dbms, phrase_management_system, phrase_database],
      remaining_text = ascii ''[RESERVED_1]'',
      ex_original_text = phrase_dbms\<rparr> \<and>
   u_reserved_words (process_text_with_reserved_words e reserved_words_ult phrase_dbms) =
     [phrase_dbms, phrase_management_system]"
proof -
  have "contains phrase_management_system phrase_dbms" "contains phrase_database phrase_dbms"
    by (simp_all add: string_eval)
  moreover have "strip (ascii '' [RESERVED_1] '') = ascii ''[RESERVED_1]''"
    by (simp add: strip_def isspace_def ascii_def)
  ultimately show ?thesis
    by (simp add: extract_reserved_words_def extract_loop_v3_dbms
        process_text_with_reserved_words_def extract_loop_ult_dbms Let_def)
qed

section \<open>The token list\<close>

text \<open>
  Claim C3 says that \<open>all_tokens\<close> is \<open>reserved_words\<close> followed by
  \<open>regular_words\<close>.  \<open>UltimateClassifier\<close> builds it from the expansion of the reserved
  words instead: for "firewall device" the reserved words are that phrase, the tokens are
  "firewall" and "device".
\<close>

theorem all_tokens_counterexample:
  "u_all_tokens (process_text_with_reserved_words env0 reserved_words_ult phrase_firewall_device) \<noteq>
   u_reserved_words (process_text_with_reserved_words env0 reserved_words_ult phrase_firewall_device) @
   u_remaining_words (process_text_with_reserved_words env0 reserved_words_ult phrase_firewall_device)"
  unfolding process_ult_firewall_device by (simp add: string_eval)


text \<open>
  Claim C3 as amended: in \<open>ReservedWordProcessor\<close> the token list is the reserved words
  followed by the regular words; in \<open>UltimateClassifier\<close> it is the expanded tokens followed
  by the remaining words, where the expanded tokens are the dictionary entries of the reserved
  words, concatenated.
\<close>

theorem all_tokens_concatenation:
  "all_tokens (process_with_reserved_words e lexicon text) =
     reserved_words (process_with_reserved_words e lexicon text) @
     regular_words (process_with_reserved_words e lexicon text) \<and>
   u_all_tokens (process_text_with_reserved_words e lexicon text) =
     u_expanded_tokens (process_text_with_reserved_words e lexicon text) @
     u_remaining_words (process_text_with_reserved_words e lexicon text) \<and>
   u_expanded_tokens (process_text_with_reserved_words e lexicon text) =
     concat (map (\<lambda>r. case map_of lexicon r of Some parts \<Rightarrow> parts | None \<Rightarrow> [r])
       (u_reserved_words (process_text_with_reserved_words e lexicon text)))"
  by (simp add: process_with_reserved_words_def process_text_with_reserved_words_def Let_def
      split: prod.split)


theorem all_tokens_concatenation_witness:
  "u_all_tokens (process_text_with_reserved_words env0 reserved_words_ult phrase_firewall_device) =
     [phrase_firewall, phrase_device] @ [] \<and>
   u_expanded_tokens (process_text_with_reserved_words env0 reserved_words_ult phrase_firewall_device) =
     concat (map (\<lambda>r. case map_of reserved_words_ult r of Some parts \<Rightarrow> parts | None \<Rightarrow> [r])
       [phrase_firewall_device])"
  using all_tokens_concatenation [of env0 reserved_words_ult phrase_firewall_device]
  unfolding process_ult_firewall_device by simp

section \<open>Bounds of the sub-scores\<close>

lemma reserved_step_fold_ge:
  "0 \<le> s \<Longrightarrow> 0 \<le> fst (foldl (reserved_step k) (s, n) rws)"
  by (induction rws arbitrary: s n) (simp_all add: reserved_step_def)

lemma calculate_reserved_word_score_bounds:
  "0 \<le> calculate_reserved_word_score c tv category \<and>
   calculate_reserved_word_score c tv category \<le> 1"
proof -
  have "0 \<le> fst (foldl (reserved_step k) (0, 0) rws)" for k rws
    by (rule reserved_step_fold_ge) simp
  then have "0 \<le> fst (foldl (reserved_step k) (0, 0) rws) / real (length rws)" for k rws
    by simp
  then show ?thesis
    by (auto simp: calculate_reserved_word_score_def split: option.split prod.split)
      (metis fst_conv)+
qed

lemma keyword_hits_bounds:
  "0 \<le> w \<Longrightarrow> s \<le> keyword_hits e t w s tier \<and> keyword_hits e t w s tier \<le> s + w * real (length tier)"
proof (induction tier arbitrary: s)
  case Nil
  then show ?case by (simp add: keyword_hits_def)
next
  case (Cons k tier)
  have step: "keyword_hits e t w s (k # tier) =
      keyword_hits e t w (if contains (lower e k) t then s + w else s) tier"
    by (simp add: keyword_hits_def)
  show ?case
  proof (cases "contains (lower e k) t")
    case True
    with step Cons.IH [OF Cons.prems, of "s + w"] Cons.prems show ?thesis
      by (simp add: algebra_simps)
  next
    case False
    with step Cons.IH [OF Cons.prems, of s] Cons.prems show ?thesis
      by (simp add: algebra_simps)
  qed
qed

lemma calculate_keyword_score_bounds:
  "0 \<le> calculate_keyword_score e c tv category \<and> calculate_keyword_score e c tv category \<le> 1"
proof (cases "map_of (category_keywords c) category")
  case None
  then show ?thesis by (simp add: calculate_keyword_score_def)
next
  case (Some k)
  define t where "t = keyword_text e tv"
  define s3 where "s3 = keyword_hits e t 3 0 (strong k)"
  define s2 where "s2 = keyword_hits e t 2 s3 (medium k)"
  define s1 where "s1 = keyword_hits e t 1 s2 (weak k)"
  have b3: "0 \<le> s3" "s3 \<le> 3 * real (length (strong k))"
    using keyword_hits_bounds [of 3 0 e t "strong k"] by (simp_all add: s3_def)
  have b2: "s3 \<le> s2" "s2 \<le> s3 + 2 * real (length (medium k))"
    using keyword_hits_bounds [of 2 s3 e t "medium k"] by (simp_all add: s2_def)
  have b1: "s2 \<le> s1" "s1 \<le> s2 + 1 * real (length (weak k))"
    using keyword_hits_bounds [of 1 s2 e t "weak k"] by (simp_all add: s1_def)
  have lo: "0 \<le> s1" using b1 b2 b3 by linarith
  have hi: "s1 \<le> max_possible_score k"
    using b1 b2 b3 by (simp add: max_possible_score_def)
  have val: "calculate_keyword_score e c tv category =
      (if 0 < max_possible_score k then s1 / max_possible_score k else 0)"
    by (simp add: calculate_keyword_score_def Some Let_def s1_def s2_def s3_def t_def)
  show ?thesis
  proof (cases "0 < max_possible_score k")
    case True
    with lo hi val show ?thesis by simp
  next
    case False
    with val show ?thesis by simp
  qed
qed

lemma pattern_count_le:
  "foldl (\<lambda>n p. if P p then n + 1 else n) (n0::nat) ps \<le> n0 + length ps"
proof (induction ps arbitrary: n0)
  case Nil
  then show ?case by simp
next
  case (Cons a ps)
  show ?case
    using Cons.IH [of "n0 + 1"] Cons.IH [of n0] by (cases "P a") simp_all
qed

lemma calculate_pattern_score_bounds:
  "0 \<le> calculate_pattern_score e c tv category \<and> calculate_pattern_score e c tv category \<le> 1"
proof (cases "map_of (category_patterns c) category")
  case None
  then show ?thesis by (simp add: calculate_pattern_score_def)
next
  case (Some ps)
  define P where "P = (\<lambda>pattern. list_ex (\<lambda>text. text \<noteq> [] \<and> re_search e pattern text) (pattern_texts tv))"
  have "foldl (\<lambda>n p. if P p then n + 1 else n) (0::nat) ps \<le> length ps"
    using pattern_count_le [of P 0 ps] by simp
  then show ?thesis
    by (simp add: calculate_pattern_score_def Some Let_def P_def)
qed

lemma calculate_similarity_score_nonneg:
  "similarity_nonneg e \<Longrightarrow> 0 \<le> calculate_similarity_score e c tv category"
  by (auto simp: calculate_similarity_score_def similarity_nonneg_def split: option.split)

lemma similarity_nonneg_env0: "similarity_nonneg env0"
  by (simp add: similarity_nonneg_def env0_def)

lemma combined_score_nonneg:
  "0 \<le> r \<Longrightarrow> 0 \<le> k \<Longrightarrow> 0 \<le> p \<Longrightarrow> 0 \<le> s \<Longrightarrow> 0 \<le> combined_score r k p s"
  by (simp add: combined_score_def)

lemma boost_fold:
  "foldl (\<lambda>s b. if b \<in> R then s + 3 else s) (s0::real) bs =
     s0 + 3 * real (length (filter (\<lambda>b. b \<in> R) bs))"
  by (induction bs arbitrary: s0) simp_all

lemma ult_reserved_score_count:
  "ult_reserved_score rules pt =
     3 * real (length (filter (\<lambda>b. b \<in> set (u_reserved_words pt))
                         (case reserved_boost rules of Some boost \<Rightarrow> boost | None \<Rightarrow> [])))"
  by (simp add: ult_reserved_score_def boost_fold split: option.split)

lemma ult_reserved_score_bounds:
  "0 \<le> ult_reserved_score rules pt \<and>
   ult_reserved_score rules pt \<le>
     3 * real (length (case reserved_boost rules of Some boost \<Rightarrow> boost | None \<Rightarrow> []))"
  unfolding ult_reserved_score_count by simp

lemma unit_fold_bounds:
  "(s0::real) \<le> foldl (\<lambda>s x. if P x then s + 1 else s) s0 xs \<and>
   foldl (\<lambda>s x. if P x then s + 1 else s) s0 xs \<le> s0 + real (length xs)"
proof (induction xs arbitrary: s0)
  case Nil
  then show ?case by simp
next
  case (Cons x xs)
  show ?case
    using Cons.IH [of "s0 + 1"] Cons.IH [of s0] by (cases "P x") simp_all
qed

lemma ult_keyword_score_bounds:
  "0 \<le> ult_keyword_score e rules pt \<and>
   ult_keyword_score e rules pt \<le> real (length (rule_keywords rules))"
  using unit_fold_bounds
    [of 0 "\<lambda>k. contains (lower e k) (lower e (u_processed_text pt))" "rule_keywords rules"]
  by (simp add: ult_keyword_score_def)

lemma penalty_fold:
  "foldl (\<lambda>p x. if x \<in> R then 2 else p) (p0::real) xs =
     (if list_ex (\<lambda>x. x \<in> R) xs then 2 else p0)"
  by (induction xs arbitrary: p0) simp_all

lemma ult_exclude_penalty_cases:
  "ult_exclude_penalty rules pt =
     (if reserved_hit (exclude_if_has_reserved rules) (u_reserved_words pt) then 2 else 0)"
  by (simp add: ult_exclude_penalty_def reserved_hit_def penalty_fold split: option.split)

lemma calculate_score_nonneg: "0 \<le> calculate_score e c pt category"
  by (simp add: calculate_score_def split: option.split)

text \<open>
  Claim C5 says that the reserved and the keyword sub-score lie in [0, 1] before weighting.
  \<open>UltimateClassifier.calculate_score\<close> does not normalise them: for "firewall device"
  and the category "physical" the reserved sub-score is 3.0 and the keyword sub-score 2.0.
\<close>

theorem subscore_bounds_counterexample:
  "ult_reserved_score (the (map_of category_rules_ult cat_physical))
     (process_text_with_reserved_words env0 reserved_words_ult phrase_firewall_device) = 3 \<and>
   ult_keyword_score env0 (the (map_of category_rules_ult cat_physical))
     (process_text_with_reserved_words env0 reserved_words_ult phrase_firewall_device) = 2"
  unfolding process_ult_firewall_device physical_rule_ult
  by (simp add: ult_reserved_score_def ult_keyword_score_def env0_def ascii_lower_def string_eval)

text \<open>
  Claim C5 as amended: in \<open>EnhancedClassifierV3\<close> the reserved sub-score and the keyword
  sub-score lie in [0, 1] for every input, category and profile.  In \<open>UltimateClassifier\<close>
  they are not normalised: the reserved sub-score lies between 0 and three times the number
  of boost phrases of the category, the keyword sub-score between 0 and the number of its
  keywords.
\<close>

theorem subscore_bounds:
  "0 \<le> calculate_reserved_word_score c tv category \<and>
   calculate_reserved_word_score c tv category \<le> 1 \<and>
   0 \<le> calculate_keyword_score e c tv category \<and>
   calculate_keyword_score e c tv category \<le> 1 \<and>
   0 \<le> ult_reserved_score rules pt \<and>
   ult_reserved_score rules pt \<le>
     3 * real (length (case reserved_boost rules of Some boost \<Rightarrow> boost | None \<Rightarrow> [])) \<and>
   0 \<le> ult_keyword_score e rules pt \<and>
   ult_keyword_score e rules pt \<le> real (length (rule_keywords rules))"
  using calculate_reserved_word_score_bounds [of c tv category]
    calculate_keyword_score_bounds [of e c tv category]
    ult_reserved_score_bounds [of rules pt] ult_keyword_score_bounds [of e rules pt]
  by simp

theorem subscore_bounds_witness:
  "0 \<le> calculate_reserved_word_score sample_v3
         (preprocess_text env0 reserved_words_v3 phrase_operation_document) cat_data \<and>
   calculate_reserved_word_score sample_v3
     (preprocess_text env0 reserved_words_v3 phrase_operation_document) cat_data \<le> 1 \<and>
   0 \<le> calculate_keyword_score env0 sample_v3
         (preprocess_text env0 reserved_words_v3 phrase_operation_document) cat_data \<and>
   calculate_keyword_score env0 sample_v3
     (preprocess_text env0 reserved_words_v3 phrase_operation_document) cat_data \<le> 1 \<and>
   0 \<le> ult_reserved_score (the (map_of category_rules_ult cat_physical))
         (process_text_with_reserved_words env0 reserved_words_ult phrase_firewall_device) \<and>
   ult_reserved_score (the (map_of category_rules_ult cat_physical))
     (process_text_with_reserved_words env0 reserved_words_ult phrase_firewall_device) \<le>
     3 * real (length (case reserved_boost (the (map_of category_rules_ult cat_physical)) of
                         Some boost \<Rightarrow> boost | None \<Rightarrow> [])) \<and>
   0 \<le> ult_keyword_score env0 (the (map_of category_rules_ult cat_physical))
         (process_text_with_reserved_words env0 reserved_words_ult phrase_firewall_device) \<and>
   ult_keyword_score env0 (the (map_of category_rules_ult cat_physical))
     (process_text_with_reserved_words env0 reserved_words_ult phrase_firewall_device) \<le>
     real (length (rule_keywords (the (map_of category_rules_ult cat_physical))))"
  by (rule subscore_bounds)

section \<open>Exclusion and boost rules\<close>

lemma apply_rules_nonneg: "0 \<le> base \<Longrightarrow> 0 \<le> apply_rules rules reserved txt base"
  by (simp add: apply_rules_def)

lemma apply_exclusion_rules_nonneg:
  "0 \<le> base \<Longrightarrow> 0 \<le> apply_exclusion_rules e table tv category base"
  by (simp add: apply_exclusion_rules_def apply_rules_nonneg split: option.split)

lemma score_category_nonneg:
  "similarity_nonneg e \<Longrightarrow> 0 \<le> total_score (score_category e c tv category)"
  by (simp add: score_category_def Let_def apply_exclusion_rules_nonneg combined_score_nonneg
      calculate_reserved_word_score_bounds calculate_keyword_score_bounds
      calculate_pattern_score_bounds calculate_similarity_score_nonneg)

lemma apply_rules_first_match:
  "apply_rules rules reserved txt base = base * first_multiplier (rule_chain rules reserved txt)"
  by (simp add: apply_rules_def first_multiplier_def rule_chain_def)

text \<open>
  Claim C4 gives the order of the rules as reserved include, reserved exclude, the two
  substring tests, the compound rules, and says that only the first matching rule fires.
  \<open>apply_exclusion_rules\<close> tests the compound rules before the substring rules: with a
  compound exclusion rule and a substring inclusion rule that both match "firewall device",
  the score 1 becomes 0.2, where the order of the claim gives 1.5.  In
  \<open>UltimateClassifier\<close> nothing stops at the first match: on "Oracle MySQL" both boost
  phrases of the category "software" add their 3.0.
\<close>

theorem rule_order_counterexample:
  "apply_exclusion_rules env0 [(cat_software, compound_and_substring_rule)]
     (preprocess_text env0 reserved_words_v3 phrase_firewall_device) cat_software 1 = 0.2 \<and>
   apply_rules_spec_order compound_and_substring_rule
     (tv_reserved_words (preprocess_text env0 reserved_words_v3 phrase_firewall_device))
     (rule_text env0 (preprocess_text env0 reserved_words_v3 phrase_firewall_device)) 1 = 1.5 \<and>
   ult_reserved_score (the (map_of category_rules_ult cat_software))
     (process_text_with_reserved_words env0 reserved_words_ult (ascii ''Oracle MySQL'')) = 3 + 3"
proof -
  have "ult_reserved_score (the (map_of category_rules_ult cat_software))
     (process_text_with_reserved_words env0 reserved_words_ult (ascii ''Oracle MySQL'')) = 3 + 3"
    unfolding ult_reserved_score_def software_boost_ult reserved_ult_oracle_mysql
    by (simp add: string_eval)
  then show ?thesis
    unfolding apply_exclusion_rules_def rule_inputs_firewall_device
    by (simp add: apply_rules_def apply_rules_spec_order_def compound_and_substring_rule_def
        reserved_hit_def compound_hit_def substring_hit_def string_eval)
qed

text \<open>
  Claim C4 as amended: \<open>apply_exclusion_rules\<close> multiplies the score by the multiplier of
  the first rule that matches, in the order reserved include (2.0), reserved exclude (0.2),
  compound include (2.0), compound exclude (0.2), substring exclude (0.3), substring include
  (1.5), and leaves it unchanged when none matches or the category has no rules.  In
  \<open>UltimateClassifier\<close> every boost phrase among the reserved words adds 3.0 to the reserved
  sub-score, and the penalty 2.0 is subtracted as well when an exclusion phrase is among them.
\<close>

theorem rules_first_match_in_source_order:
  "apply_exclusion_rules e table tv category base =
     (case map_of table category of
        None \<Rightarrow> base
      | Some rules \<Rightarrow>
          base * first_multiplier (rule_chain rules (tv_reserved_words tv) (rule_text e tv))) \<and>
   ult_reserved_score urules pt =
     3 * real (length (filter (\<lambda>b. b \<in> set (u_reserved_words pt))
                         (case reserved_boost urules of Some boost \<Rightarrow> boost | None \<Rightarrow> []))) \<and>
   ult_exclude_penalty urules pt =
     (if reserved_hit (exclude_if_has_reserved urules) (u_reserved_words pt) then 2 else 0)"
  by (simp add: apply_exclusion_rules_def apply_rules_first_match ult_reserved_score_count
      ult_exclude_penalty_cases split: option.split)

theorem rules_first_match_in_source_order_witness:
  "apply_exclusion_rules env0 [(cat_software, compound_and_substring_rule)]
     (preprocess_text env0 reserved_words_v3 phrase_firewall_device) cat_software 1 =
     1 * first_multiplier [(False, 2.0), (False, 0.2), (False, 2.0), (True, 0.2), (False, 0.3), (True, 1.5)] \<and>
   ult_reserved_score (the (map_of category_rules_ult cat_software))
     (process_text_with_reserved_words env0 reserved_words_ult (ascii ''Oracle MySQL'')) =
     3 * real (length [ascii ''MySQL'', ascii ''Oracle''])"
  using rules_first_match_in_source_order
    [of env0 "[(cat_software, compound_and_substring_rule)]"
        "preprocess_text env0 reserved_words_v3 phrase_firewall_device" cat_software 1
        "the (map_of category_rules_ult cat_software)"
        "process_text_with_reserved_words env0 reserved_words_ult (ascii ''Oracle MySQL'')"]
  unfolding rule_inputs_firewall_device software_boost_ult reserved_ult_oracle_mysql
  by (simp add: rule_chain_def compound_and_substring_rule_def
        reserved_hit_def compound_hit_def substring_hit_def string_eval)

text \<open>Removing a rule from the table of one category.\<close>

lemma map_of_without_rule:
  "map_of (without_rule del category table) k =
     map_option (\<lambda>r. if k = category then del r else r) (map_of table k)"
  by (induction table) (auto simp: without_rule_def)

lemma apply_rules_without_include:
  assumes "0 \<le> base" and "reserved_hit (include_reserved_words rules) reserved"
  shows "apply_rules (del_include rules) reserved txt base \<le> apply_rules rules reserved txt base"
  using assms by (simp add: apply_rules_def del_include_def reserved_hit_def)

lemma apply_rules_without_exclude:
  assumes "0 \<le> base" and "reserved_hit (exclude_reserved_words rules) reserved"
  shows "apply_rules rules reserved txt base \<le> apply_rules (del_exclude rules) reserved txt base"
  using assms by (simp add: apply_rules_def del_exclude_def reserved_hit_def)

lemma base_score_nonneg:
  "similarity_nonneg e \<Longrightarrow>
   0 \<le> combined_score (calculate_reserved_word_score c tv category)
         (calculate_keyword_score e c tv category) (calculate_pattern_score e c tv category)
         (calculate_similarity_score e c tv category)"
  by (simp add: combined_score_nonneg calculate_reserved_word_score_bounds
      calculate_keyword_score_bounds calculate_pattern_score_bounds
      calculate_similarity_score_nonneg)

lemma subscores_ignore_rules:
  "calculate_reserved_word_score (c\<lparr>exclusion_rules := t\<rparr>) tv category =
     calculate_reserved_word_score c tv category"
  "calculate_keyword_score e (c\<lparr>exclusion_rules := t\<rparr>) tv category =
     calculate_keyword_score e c tv category"
  "calculate_pattern_score e (c\<lparr>exclusion_rules := t\<rparr>) tv category =
     calculate_pattern_score e c tv category"
  "calculate_similarity_score e (c\<lparr>exclusion_rules := t\<rparr>) tv category =
     calculate_similarity_score e c tv category"
  by (simp_all add: calculate_reserved_word_score_def calculate_keyword_score_def
      calculate_pattern_score_def calculate_similarity_score_def)

text \<open>
  Claim C6: when a reserved word of the input is on the include list of a category, the
  adjusted score of that category is at least the adjusted score computed without the include
  rule; when one is on the exclude list, it is at most the score computed without the exclude
  rule.  The weighted sum is not negative because no sub-score is; for the similarity this
  is the assumption on the collaborator.
\<close>

theorem boost_exclude_monotone:
  assumes "similarity_nonneg e" and "map_of (exclusion_rules c) category = Some rules"
  shows "(reserved_hit (include_reserved_words rules) (tv_reserved_words tv) \<longrightarrow>
            total_score (score_category e
              (c\<lparr>exclusion_rules := without_rule del_include category (exclusion_rules c)\<rparr>)
              tv category)
            \<le> total_score (score_category e c tv category)) \<and>
         (reserved_hit (exclude_reserved_words rules) (tv_reserved_words tv) \<longrightarrow>
            total_score (score_category e c tv category)
            \<le> total_score (score_category e
              (c\<lparr>exclusion_rules := without_rule del_exclude category (exclusion_rules c)\<rparr>)
              tv category))"
proof -
  define base where "base = combined_score (calculate_reserved_word_score c tv category)
         (calculate_keyword_score e c tv category) (calculate_pattern_score e c tv category)
         (calculate_similarity_score e c tv category)"
  have base: "0 \<le> base"
    unfolding base_def using assms(1) by (rule base_score_nonneg)
  have with_rules: "total_score (score_category e c tv category) =
      apply_rules rules (tv_reserved_words tv) (rule_text e tv) base"
    by (simp add: score_category_def Let_def apply_exclusion_rules_def assms(2) base_def)
  have without: "total_score (score_category e
        (c\<lparr>exclusion_rules := without_rule del category (exclusion_rules c)\<rparr>) tv category) =
      apply_rules (del rules) (tv_reserved_words tv) (rule_text e tv) base" for del
    by (simp add: score_category_def Let_def apply_exclusion_rules_def map_of_without_rule
        assms(2) subscores_ignore_rules base_def)
  show ?thesis
    unfolding with_rules without
    using apply_rules_without_include [OF base] apply_rules_without_exclude [OF base]
    by blast
qed

theorem boost_exclude_monotone_witness:
  "similarity_nonneg env0 \<and>
   reserved_hit (include_reserved_words (the (map_of (exclusion_rules sample_v3) cat_data)))
     (tv_reserved_words (preprocess_text env0 reserved_words_v3 phrase_operation_document)) \<and>
   total_score (score_category env0
       (sample_v3\<lparr>exclusion_rules := without_rule del_include cat_data (exclusion_rules sample_v3)\<rparr>)
       (preprocess_text env0 reserved_words_v3 phrase_operation_document) cat_data)
     \<le> total_score (score_category env0 sample_v3
           (preprocess_text env0 reserved_words_v3 phrase_operation_document) cat_data) \<and>
   reserved_hit (exclude_reserved_words (the (map_of (exclusion_rules sample_v3) cat_personnel)))
     (tv_reserved_words (preprocess_text env0 reserved_words_v3 phrase_operation_document)) \<and>
   total_score (score_category env0 sample_v3
       (preprocess_text env0 reserved_words_v3 phrase_operation_document) cat_personnel)
     \<le> total_score (score_category env0
           (sample_v3\<lparr>exclusion_rules := without_rule del_exclude cat_personnel (exclusion_rules sample_v3)\<rparr>)
           (preprocess_text env0 reserved_words_v3 phrase_operation_document) cat_personnel)"
proof -
  let ?tv = "preprocess_text env0 reserved_words_v3 phrase_operation_document"
  have inc: "reserved_hit (include_reserved_words (the (map_of (exclusion_rules sample_v3) cat_data)))
      (tv_reserved_words ?tv)"
    unfolding data_rule_v3 preprocess_opdoc
    by (simp add: reserved_hit_def phrase_operation_document_def)
  have exc: "reserved_hit (exclude_reserved_words (the (map_of (exclusion_rules sample_v3) cat_personnel)))
      (tv_reserved_words ?tv)"
    unfolding personnel_rule_v3 preprocess_opdoc
    by (simp add: reserved_hit_def phrase_operation_document_def)
  have d: "map_of (exclusion_rules sample_v3) cat_data =
      Some (the (map_of (exclusion_rules sample_v3) cat_data))"
    unfolding data_rule_v3 by simp
  have p: "map_of (exclusion_rules sample_v3) cat_personnel =
      Some (the (map_of (exclusion_rules sample_v3) cat_personnel))"
    unfolding personnel_rule_v3 by simp
  show ?thesis
    using boost_exclude_monotone [OF similarity_nonneg_env0 d, of ?tv]
      boost_exclude_monotone [OF similarity_nonneg_env0 p, of ?tv]
      inc exc similarity_nonneg_env0
    by blast
qed

section \<open>Classification\<close>

lemma max_first_in: "max_first f best xs \<in> set (best # xs)"
  by (induction xs arbitrary: best) (simp, force)

lemma max_by_in: "max_by f xs = Some b \<Longrightarrow> b \<in> set xs"
  using max_first_in [of f] by (auto simp: max_by_def split: list.splits)

lemma max_by_some: "xs \<noteq> [] \<Longrightarrow> \<exists>b. max_by f xs = Some b"
  by (cases xs) (simp_all add: max_by_def)

lemma max_first_keeps_first:
  "(\<forall>x\<in>set xs. f x \<le> f best) \<Longrightarrow> max_first f best xs = best"
  by (induction xs arbitrary: best) auto

lemma unique_nonempty: "xs \<noteq> [] \<Longrightarrow> unique xs \<noteq> []"
  by (cases xs) (auto simp: unique_def)

lemma unique_hd: "xs \<noteq> [] \<Longrightarrow> hd (unique xs) = hd xs"
proof -
  assume "xs \<noteq> []"
  then obtain x ys where xs: "xs = x # ys" by (cases xs) auto
  have "last (remdups (zs @ [x])) = x" for zs :: "'a list"
    by (induction zs) auto
  then have "last (remdups (rev xs)) = x" by (simp add: xs)
  moreover have "remdups (rev xs) \<noteq> []" by (simp add: xs)
  ultimately show ?thesis
    by (simp add: unique_def hd_rev xs)
qed

lemma set_unique: "set (unique xs) = set xs"
  by (simp add: unique_def)

lemma classify_text_unfold:
  "data c \<noteq> [] \<Longrightarrow>
   max_by (\<lambda>x. total_score (snd x))
       (map (\<lambda>category. (category,
               score_category e c (preprocess_text e (reserved_processor c) text) category))
             (unique (map snd (data c)))) = Some best \<Longrightarrow>
   classify_text e c text =
      Inr \<lparr>input_text = text,
           processed_variants = preprocess_text e (reserved_processor c) text,
           best_prediction = fst best,
           best_score = total_score (snd best),
           all_scores = map (\<lambda>category. (category,
               score_category e c (preprocess_text e (reserved_processor c) text) category))
             (unique (map snd (data c))),
           sorted_scores = sort_key (\<lambda>x. - total_score (snd x))
             (map (\<lambda>category. (category,
               score_category e c (preprocess_text e (reserved_processor c) text) category))
             (unique (map snd (data c)))),
           confidence = total_score (snd best)\<rparr>"
  unfolding classify_text_def Let_def by simp

lemma classify_text_returns:
  assumes "data c \<noteq> []"
  shows "\<exists>r best. classify_text e c text = Inr r \<and>
     processed_variants r = preprocess_text e (reserved_processor c) text \<and>
     all_scores r = map (\<lambda>category. (category, score_category e c (processed_variants r) category))
                      (unique (map snd (data c))) \<and>
     max_by (\<lambda>x. total_score (snd x)) (all_scores r) = Some best \<and>
     best_prediction r = fst best \<and> confidence r = total_score (snd best)"
proof -
  define scores where "scores = map (\<lambda>category. (category,
               score_category e c (preprocess_text e (reserved_processor c) text) category))
             (unique (map snd (data c)))"
  have "scores \<noteq> []"
    using assms unique_nonempty [of "map snd (data c)"] by (simp add: scores_def)
  then have "\<exists>b. max_by (\<lambda>x. total_score (snd x)) scores = Some b"
    by (rule max_by_some)
  then obtain best where best: "max_by (\<lambda>x. total_score (snd x)) scores = Some best" ..
  have res: "classify_text e c text =
      Inr \<lparr>input_text = text,
           processed_variants = preprocess_text e (reserved_processor c) text,
           best_prediction = fst best,
           best_score = total_score (snd best),
           all_scores = scores,
           sorted_scores = sort_key (\<lambda>x. - total_score (snd x)) scores,
           confidence = total_score (snd best)\<rparr>"
    using classify_text_unfold [OF assms, of e "text" best] best unfolding scores_def by simp
  show ?thesis
    unfolding res
    by (rule exI, rule exI [of _ best], intro conjI, rule refl) (simp_all add: best, simp add: scores_def)
qed

lemma classify_unfold:
  "u_data c \<noteq> [] \<Longrightarrow>
   max_by snd
       (map (\<lambda>category. (category,
               calculate_score e c (process_text_with_reserved_words e (u_lexicon c) text) category))
             (unique (map snd (u_data c)))) = Some best \<Longrightarrow>
   classify e c text =
      Inr \<lparr>r_input_text = text,
           predicted_category = fst best,
           r_confidence = snd best,
           r_all_scores = map (\<lambda>category. (category,
               calculate_score e c (process_text_with_reserved_words e (u_lexicon c) text) category))
             (unique (map snd (u_data c))),
           r_sorted_scores = sort_key (\<lambda>x. - snd x)
             (map (\<lambda>category. (category,
               calculate_score e c (process_text_with_reserved_words e (u_lexicon c) text) category))
             (unique (map snd (u_data c)))),
           processed_info = process_text_with_reserved_words e (u_lexicon c) text\<rparr>"
  unfolding classify_def Let_def by simp

lemma classify_returns:
  assumes "u_data c \<noteq> []"
  shows "\<exists>r best. classify e c text = Inr r \<and>
     processed_info r = process_text_with_reserved_words e (u_lexicon c) text \<and>
     r_all_scores r = map (\<lambda>category. (category, calculate_score e c (processed_info r) category))
                        (unique (map snd (u_data c))) \<and>
     max_by snd (r_all_scores r) = Some best \<and>
     predicted_category r = fst best \<and> r_confidence r = snd best"
proof -
  define scores where "scores = map (\<lambda>category. (category,
               calculate_score e c (process_text_with_reserved_words e (u_lexicon c) text) category))
             (unique (map snd (u_data c)))"
  have "scores \<noteq> []"
    using assms unique_nonempty [of "map snd (u_data c)"] by (simp add: scores_def)
  then have "\<exists>b. max_by snd scores = Some b"
    by (rule max_by_some)
  then obtain best where best: "max_by snd scores = Some best" ..
  have res: "classify e c text =
      Inr \<lparr>r_input_text = text,
           predicted_category = fst best,
           r_confidence = snd best,
           r_all_scores = scores,
           r_sorted_scores = sort_key (\<lambda>x. - snd x) scores,
           processed_info = process_text_with_reserved_words e (u_lexicon c) text\<rparr>"
    using classify_unfold [OF assms, of e "text" best] best unfolding scores_def by simp
  show ?thesis
    unfolding res
    by (rule exI, rule exI [of _ best], intro conjI, rule refl) (simp_all add: best, simp add: scores_def)
qed

lemma classify_text_data: "classify_text e c text = Inr r \<Longrightarrow> data c \<noteq> []"
  by (cases "data c = []") (simp_all add: classify_text_def)

lemma classify_data: "classify e c text = Inr r \<Longrightarrow> u_data c \<noteq> []"
  by (cases "u_data c = []") (simp_all add: classify_def)

lemma sample_data_nonempty: "data sample_v3 \<noteq> []" "u_data sample_ult \<noteq> []"
  by (simp_all add: sample_v3_def sample_ult_def sample_data_def)

text \<open>
  Claim C10: the final score of every category, and so the confidence, is not negative.
  \<open>UltimateClassifier\<close> floors the score at 0.0; in the v3 classifier the weighted sum of
  sub-scores that are not negative is multiplied by a positive number, where the similarity
  is not negative by the assumption on the collaborator.
\<close>

theorem scores_nonneg:
  "(similarity_nonneg e \<and> classify_text e c text = Inr r \<longrightarrow>
      0 \<le> confidence r \<and> (\<forall>x\<in>set (all_scores r). 0 \<le> total_score (snd x))) \<and>
   (classify e c' text = Inr r' \<longrightarrow>
      0 \<le> r_confidence r' \<and> (\<forall>x\<in>set (r_all_scores r'). 0 \<le> snd x))"
proof (intro conjI impI)
  assume a: "similarity_nonneg e \<and> classify_text e c text = Inr r"
  then have sim: "similarity_nonneg e" and res: "classify_text e c text = Inr r"
    by simp_all
  from classify_text_returns [OF classify_text_data [OF res], of e "text"] res obtain best where
    scores: "all_scores r = map (\<lambda>category. (category, score_category e c (processed_variants r) category))
                      (unique (map snd (data c)))"
    and best: "max_by (\<lambda>x. total_score (snd x)) (all_scores r) = Some best"
    and conf: "confidence r = total_score (snd best)"
    by auto
  have "0 \<le> total_score (snd x)" if "x \<in> set (all_scores r)" for x
  proof -
    from that obtain category where
      "x = (category, score_category e c (processed_variants r) category)"
      unfolding scores by auto
    then show ?thesis by (simp add: score_category_nonneg [OF sim])
  qed
  then show all: "\<forall>x\<in>set (all_scores r). 0 \<le> total_score (snd x)"
    by blast
  from max_by_in [OF best] all show "0 \<le> confidence r"
    by (simp add: conf)
next
  assume res: "classify e c' text = Inr r'"
  from classify_returns [OF classify_data [OF res], of e "text"] res obtain best where
    scores: "r_all_scores r' = map (\<lambda>category. (category, calculate_score e c' (processed_info r') category))
                        (unique (map snd (u_data c')))"
    and best: "max_by snd (r_all_scores r') = Some best"
    and conf: "r_confidence r' = snd best"
    by auto
  have "0 \<le> snd x" if "x \<in> set (r_all_scores r')" for x
  proof -
    from that obtain category where "x = (category, calculate_score e c' (processed_info r') category)"
      unfolding scores by auto
    then show ?thesis by (simp add: calculate_score_nonneg)
  qed
  then show all: "\<forall>x\<in>set (r_all_scores r'). 0 \<le> snd x"
    by blast
  from max_by_in [OF best] all show "0 \<le> r_confidence r'"
    by (simp add: conf)
qed

theorem scores_nonneg_witness:
  "similarity_nonneg env0 \<and>
   (\<exists>r. classify_text env0 sample_v3 phrase_operation_document = Inr r \<and> 0 \<le> confidence r \<and>
      (\<forall>x\<in>set (all_scores r). 0 \<le> total_score (snd x))) \<and>
   (\<exists>r. classify env0 sample_ult phrase_operation_document = Inr r \<and> 0 \<le> r_confidence r \<and>
      (\<forall>x\<in>set (r_all_scores r). 0 \<le> snd x))"
proof -
  obtain r where r: "classify_text env0 sample_v3 phrase_operation_document = Inr r"
    using classify_text_returns [OF sample_data_nonempty(1)] by blast
  obtain r' where r': "classify env0 sample_ult phrase_operation_document = Inr r'"
    using classify_returns [OF sample_data_nonempty(2)] by blast
  have "0 \<le> confidence r \<and> (\<forall>x\<in>set (all_scores r). 0 \<le> total_score (snd x))"
    using scores_nonneg [of env0 sample_v3 phrase_operation_document r sample_ult r']
      r similarity_nonneg_env0 by simp
  moreover have "0 \<le> r_confidence r' \<and> (\<forall>x\<in>set (r_all_scores r'). 0 \<le> snd x)"
    using scores_nonneg [of env0 sample_v3 phrase_operation_document r sample_ult r'] r' by simp
  ultimately show ?thesis
    using r r' similarity_nonneg_env0 by blast
qed

section \<open>A failing similarity collaborator\<close>

lemma score_category_fields:
  "reserved_score (score_category e c tv category) = calculate_reserved_word_score c tv category"
  "keyword_score (score_category e c tv category) = calculate_keyword_score e c tv category"
  "pattern_score (score_category e c tv category) = calculate_pattern_score e c tv category"
  "similarity_score (score_category e c tv category) = calculate_similarity_score e c tv category"
  "total_score (score_category e c tv category) =
     apply_exclusion_rules e (exclusion_rules c) tv category
       (combined_score (calculate_reserved_word_score c tv category)
          (calculate_keyword_score e c tv category) (calculate_pattern_score e c tv category)
          (calculate_similarity_score e c tv category))"
  by (simp_all add: score_category_def Let_def)

lemma similarity_raises_v3:
  "vec_similarity e category (similarity_text tv) = None \<Longrightarrow>
   calculate_similarity_score e c tv category = 0"
  by (simp add: calculate_similarity_score_def)

lemma similarity_raises_ult:
  "vec_similarity e category (u_processed_text pt) = None \<Longrightarrow>
   ult_similarity_score e c pt category = 0"
  by (simp add: ult_similarity_score_def)

lemma env0_always_raises: "vec_similarity env0 category s = None"
  by (simp add: env0_def)

text \<open>
  Claim C8: when the vectorizer or the cosine computation raises for a category, the
  similarity sub-score of that category is 0.0 and classification goes on.  With a training
  set that is not empty both classifiers return a result whose predicted category is one of
  the training categories; in the v3 classifier every category still carries its reserved,
  keyword and pattern sub-scores and the adjusted weighted sum, in \<open>UltimateClassifier\<close>
  the score is the floored weighted sum with 0.0 for the similarity.
\<close>

theorem similarity_failure_recovered:
  "(data c \<noteq> [] \<longrightarrow>
     (\<exists>r. classify_text e c text = Inr r \<and> best_prediction r \<in> set (map snd (data c)) \<and>
        (\<forall>x\<in>set (all_scores r).
           (vec_similarity e (fst x) (similarity_text (processed_variants r)) = None \<longrightarrow>
              similarity_score (snd x) = 0) \<and>
           reserved_score (snd x) = calculate_reserved_word_score c (processed_variants r) (fst x) \<and>
           keyword_score (snd x) = calculate_keyword_score e c (processed_variants r) (fst x) \<and>
           pattern_score (snd x) = calculate_pattern_score e c (processed_variants r) (fst x) \<and>
           total_score (snd x) =
             apply_exclusion_rules e (exclusion_rules c) (processed_variants r) (fst x)
               (combined_score (reserved_score (snd x)) (keyword_score (snd x))
                  (pattern_score (snd x)) (similarity_score (snd x)))))) \<and>
   (u_data c' \<noteq> [] \<longrightarrow>
     (\<exists>r. classify e c' text = Inr r \<and> predicted_category r \<in> set (map snd (u_data c')) \<and>
        (\<forall>x\<in>set (r_all_scores r). \<forall>rules.
           map_of (category_rules c') (fst x) = Some rules \<and>
           vec_similarity e (fst x) (u_processed_text (processed_info r)) = None \<longrightarrow>
           snd x = max 0 (combined_score (ult_reserved_score rules (processed_info r))
                            (ult_keyword_score e rules (processed_info r))
                            (ult_pattern_score e rules (processed_info r)) 0
                          - ult_exclude_penalty rules (processed_info r)))))"
proof (intro conjI impI)
  assume ne: "data c \<noteq> []"
  from classify_text_returns [OF ne, of e "text"] obtain r best where
    res: "classify_text e c text = Inr r"
    and scores: "all_scores r = map (\<lambda>category. (category, score_category e c (processed_variants r) category))
                      (unique (map snd (data c)))"
    and best: "max_by (\<lambda>x. total_score (snd x)) (all_scores r) = Some best"
    and pred: "best_prediction r = fst best"
    by blast
  have "best \<in> set (all_scores r)"
    using best by (rule max_by_in)
  then have "fst best \<in> set (unique (map snd (data c)))"
    unfolding scores by auto
  then have known: "best_prediction r \<in> set (map snd (data c))"
    by (simp add: pred set_unique)
  have each: "(vec_similarity e (fst x) (similarity_text (processed_variants r)) = None \<longrightarrow>
              similarity_score (snd x) = 0) \<and>
           reserved_score (snd x) = calculate_reserved_word_score c (processed_variants r) (fst x) \<and>
           keyword_score (snd x) = calculate_keyword_score e c (processed_variants r) (fst x) \<and>
           pattern_score (snd x) = calculate_pattern_score e c (processed_variants r) (fst x) \<and>
           total_score (snd x) =
             apply_exclusion_rules e (exclusion_rules c) (processed_variants r) (fst x)
               (combined_score (reserved_score (snd x)) (keyword_score (snd x))
                  (pattern_score (snd x)) (similarity_score (snd x)))"
    if "x \<in> set (all_scores r)" for x
  proof -
    from that obtain category where
      x: "x = (category, score_category e c (processed_variants r) category)"
      unfolding scores by auto
    show ?thesis
      unfolding x by (simp add: score_category_fields similarity_raises_v3)
  qed
  show "\<exists>r. classify_text e c text = Inr r \<and> best_prediction r \<in> set (map snd (data c)) \<and>
        (\<forall>x\<in>set (all_scores r).
           (vec_similarity e (fst x) (similarity_text (processed_variants r)) = None \<longrightarrow>
              similarity_score (snd x) = 0) \<and>
           reserved_score (snd x) = calculate_reserved_word_score c (processed_variants r) (fst x) \<and>
           keyword_score (snd x) = calculate_keyword_score e c (processed_variants r) (fst x) \<and>
           pattern_score (snd x) = calculate_pattern_score e c (processed_variants r) (fst x) \<and>
           total_score (snd x) =
             apply_exclusion_rules e (exclusion_rules c) (processed_variants r) (fst x)
               (combined_score (reserved_score (snd x)) (keyword_score (snd x))
                  (pattern_score (snd x)) (similarity_score (snd x))))"
    using res known each by blast
next
  assume ne: "u_data c' \<noteq> []"
  from classify_returns [OF ne, of e "text"] obtain r best where
    res: "classify e c' text = Inr r"
    and scores: "r_all_scores r = map (\<lambda>category. (category, calculate_score e c' (processed_info r) category))
                        (unique (map snd (u_data c')))"
    and best: "max_by snd (r_all_scores r) = Some best"
    and pred: "predicted_category r = fst best"
    by blast
  have "best \<in> set (r_all_scores r)"
    using best by (rule max_by_in)
  then have "fst best \<in> set (unique (map snd (u_data c')))"
    unfolding scores by auto
  then have known: "predicted_category r \<in> set (map snd (u_data c'))"
    by (simp add: pred set_unique)
  have each: "snd x = max 0 (combined_score (ult_reserved_score rules (processed_info r))
                            (ult_keyword_score e rules (processed_info r))
                            (ult_pattern_score e rules (processed_info r)) 0
                          - ult_exclude_penalty rules (processed_info r))"
    if "x \<in> set (r_all_scores r)"
      and "map_of (category_rules c') (fst x) = Some rules \<and>
           vec_similarity e (fst x) (u_processed_text (processed_info r)) = None" for x rules
  proof -
    from that(1) obtain category where
      x: "x = (category, calculate_score e c' (processed_info r) category)"
      unfolding scores by auto
    show ?thesis
      using that(2) unfolding x by (simp add: calculate_score_def similarity_raises_ult)
  qed
  show "\<exists>r. classify e c' text = Inr r \<and> predicted_category r \<in> set (map snd (u_data c')) \<and>
        (\<forall>x\<in>set (r_all_scores r). \<forall>rules.
           map_of (category_rules c') (fst x) = Some rules \<and>
           vec_similarity e (fst x) (u_processed_text (processed_info r)) = None \<longrightarrow>
           snd x = max 0 (combined_score (ult_reserved_score rules (processed_info r))
                            (ult_keyword_score e rules (processed_info r))
                            (ult_pattern_score e rules (processed_info r)) 0
                          - ult_exclude_penalty rules (processed_info r)))"
    using res known each by blast
qed

theorem similarity_failure_recovered_witness:
  "data sample_v3 \<noteq> [] \<and> u_data sample_ult \<noteq> [] \<and>
   (\<exists>r. classify_text env0 sample_v3 phrase_operation_document = Inr r \<and>
      best_prediction r \<in> set (map snd (data sample_v3)) \<and>
      (\<forall>x\<in>set (all_scores r). similarity_score (snd x) = 0)) \<and>
   (\<exists>r. classify env0 sample_ult phrase_operation_document = Inr r \<and>
      predicted_category r \<in> set (map snd (u_data sample_ult)))"
proof -
  have v3: "\<exists>r. classify_text env0 sample_v3 phrase_operation_document = Inr r \<and>
      best_prediction r \<in> set (map snd (data sample_v3)) \<and>
      (\<forall>x\<in>set (all_scores r). similarity_score (snd x) = 0)"
    using similarity_failure_recovered
      [of sample_v3 env0 phrase_operation_document sample_ult] sample_data_nonempty(1)
    by (simp add: env0_always_raises) blast
  have ult: "\<exists>r. classify env0 sample_ult phrase_operation_document = Inr r \<and>
      predicted_category r \<in> set (map snd (u_data sample_ult))"
    using similarity_failure_recovered
      [of sample_v3 env0 phrase_operation_document sample_ult] sample_data_nonempty(2)
    by blast
  show ?thesis
    using v3 ult sample_data_nonempty by blast
qed

section \<open>The empty input\<close>

lemma contains_set: "contains p s \<Longrightarrow> set p \<subseteq> set s"
proof (induction s)
  case Nil
  then show ?case by simp
next
  case (Cons c cs)
  show ?case
  proof (cases "startswith (c # cs) p")
    case True
    then have "p = take (length p) (c # cs)" by (simp add: startswith_def)
    then have "set p \<subseteq> set (c # cs)"
      using set_take_subset [of "length p" "c # cs"] by metis
    then show ?thesis .
  next
    case False
    with Cons show ?thesis by auto
  qed
qed

lemma contains_blank: "contains p s \<Longrightarrow> blank s \<Longrightarrow> blank p"
  using contains_set [of p s] by (auto simp: blank_def)

lemma blank_simps: "blank []" "blank (ascii '' '')" "blank (ascii ''    '')"
  by (simp_all add: blank_def ascii_def)

lemma blank_more: "blank (ascii ''   '')" "blank (ascii ''  '')"
  by (simp_all add: blank_def ascii_def)

lemma strip_blank: "blank s \<Longrightarrow> strip s = []"
proof -
  assume "blank s"
  then have "\<forall>c\<in>set s. isspace c" by (auto simp: blank_def isspace_def)
  then have d: "dropWhile isspace s = []" by (induction s) simp_all
  show ?thesis unfolding strip_def d by simp
qed

lemma extract_no_match:
  "\<forall>p\<in>set ks. \<not> contains p text \<Longrightarrow> foldl (extract_step ph text) st ks = st"
  by (induction ks arbitrary: st) (auto simp: extract_step_def)

lemma extract_loop_empty:
  assumes "[] \<notin> set keys"
  shows "extract_loop ph keys [] = ([], [])"
proof -
  have "\<forall>p\<in>set (sorted_by_len_desc keys). \<not> contains p []"
    using assms by (auto simp: sorted_by_len_desc_def)
  then show ?thesis
    unfolding extract_loop_def by (rule extract_no_match)
qed

lemma process_v3_empty:
  assumes "[] \<notin> set (map fst lexicon)"
  shows "process_with_reserved_words e lexicon [] =
     \<lparr>reserved_words = [], regular_words = [], all_tokens = [], original_text = []\<rparr>"
  by (simp add: process_with_reserved_words_def extract_reserved_words_def
      extract_loop_empty [OF assms] strip_blank blank_simps Let_def)

lemma process_ult_empty:
  assumes "[] \<notin> set (map fst lexicon)"
  shows "process_text_with_reserved_words e lexicon [] =
     \<lparr>u_original = [], u_reserved_words = [], u_remaining_words = [], u_expanded_tokens = [],
      u_all_tokens = [], u_processed_text = []\<rparr>"
proof -
  have "replace [] (ascii ''[RESERVED]'') [] = []"
    by (simp add: replace_def ascii_def)
  then show ?thesis
    by (simp add: process_text_with_reserved_words_def extract_loop_empty [OF assms]
        strip_blank blank_simps Let_def)
qed

lemma preprocess_empty:
  assumes "[] \<notin> set (map fst lexicon)" and "lower_sane e"
  shows "preprocess_text e lexicon [] =
     \<lparr>original = [], cleaned = [], no_brackets = [], bracket_content = [], lower_case = [],
      no_spaces = [], tv_reserved_words = [], tv_regular_words = [], tv_all_tokens = [],
      traditional_words = jieba_cut e [],
      traditional_words_filtered =
        filter (\<lambda>w. 1 < length (strip w) \<and> strip w \<notin> set stopwords) (jieba_cut e []),
      pos_tags = pseg_cut e []\<rparr>"
proof -
  have "lower e [] = []"
    using assms(2) blank_simps(1) unfolding lower_sane_def by blast
  then show ?thesis
    by (simp add: preprocess_text_def process_v3_empty [OF assms(1)] strip_blank blank_simps
        bracket_content_of_def remove_ws_def Let_def)
qed

lemma keyword_hits_none:
  "\<forall>k\<in>set tier. \<not> contains (lower e k) t \<Longrightarrow> keyword_hits e t w s tier = s"
  by (induction tier arbitrary: s) (simp_all add: keyword_hits_def)

lemma no_hit_in_blank:
  assumes "lower_sane e" and "blank t" and "\<not> blank k"
  shows "\<not> contains (lower e k) t"
proof
  assume "contains (lower e k) t"
  then have "blank (lower e k)" using assms(2) by (rule contains_blank)
  then have "blank k" using assms(1) unfolding lower_sane_def by blast
  with assms(3) show False by simp
qed

lemma apply_exclusion_rules_zero: "apply_exclusion_rules e table tv category 0 = 0"
  by (simp add: apply_exclusion_rules_def apply_rules_def split: option.split)

lemma combined_score_zero: "combined_score 0 0 0 0 = 0"
  by (simp add: combined_score_def)

lemma unit_fold_none:
  "\<forall>x\<in>set xs. \<not> P x \<Longrightarrow> foldl (\<lambda>s x. if P x then s + 1 else s) (s0::real) xs = s0"
  by (induction xs arbitrary: s0) simp_all

lemma pattern_fold_none:
  "\<forall>p\<in>set ps. \<not> P p \<Longrightarrow> foldl (\<lambda>n p. if P p then n + 1 else n) n0 ps = n0"
  by (induction ps arbitrary: n0) simp_all

lemma score_category_empty:
  assumes lex: "[] \<notin> set (map fst lexicon)" and low: "lower_sane e"
    and kw: "keywords_not_blank (category_keywords c)"
  shows "score_category e c (preprocess_text e lexicon []) category =
     \<lparr>total_score = 0, reserved_score = 0, keyword_score = 0, pattern_score = 0,
      similarity_score = 0\<rparr>"
proof -
  let ?tv = "preprocess_text e lexicon []"
  note tv = preprocess_empty [OF lex low]
  have ktext: "keyword_text e ?tv = ascii ''    ''"
  proof -
    have "lower e (ascii ''    '') = ascii ''    ''"
      using low blank_simps(3) unfolding lower_sane_def by blast
    moreover have "join (ascii '' '')
        [cleaned ?tv, no_brackets ?tv, bracket_content ?tv,
         join (ascii '' '') (tv_all_tokens ?tv), join (ascii '' '') (tv_reserved_words ?tv)] =
        ascii ''    ''"
      by (simp add: tv ascii_def)
    ultimately show ?thesis by (simp only: keyword_text_def)
  qed
  have r: "calculate_reserved_word_score c ?tv category = 0"
    by (simp add: calculate_reserved_word_score_def tv split: option.split)
  have k: "calculate_keyword_score e c ?tv category = 0"
  proof (cases "map_of (category_keywords c) category")
    case None
    then show ?thesis by (simp add: calculate_keyword_score_def)
  next
    case (Some tiers)
    then have "(category, tiers) \<in> set (category_keywords c)"
      by (rule map_of_SomeD)
    then have nb: "\<forall>w\<in>set (strong tiers @ medium tiers @ weak tiers). \<not> blank w"
      using kw unfolding keywords_not_blank_def by force
    have miss: "\<forall>w\<in>set tier. \<not> contains (lower e w) (ascii ''    '')"
      if "set tier \<subseteq> set (strong tiers @ medium tiers @ weak tiers)" for tier
      using that nb no_hit_in_blank [OF low blank_simps(3)] by blast
    have hits: "keyword_hits e (ascii ''    '') w s tier = s"
      if "set tier \<subseteq> set (strong tiers @ medium tiers @ weak tiers)" for tier w s
      using miss [OF that] by (rule keyword_hits_none)
    have "keyword_hits e (ascii ''    '') 1
        (keyword_hits e (ascii ''    '') 2
          (keyword_hits e (ascii ''    '') 3 0 (strong tiers)) (medium tiers)) (weak tiers) = 0"
    proof -
      have "keyword_hits e (ascii ''    '') 3 0 (strong tiers) = 0"
        by (rule hits) auto
      moreover have "keyword_hits e (ascii ''    '') 2 0 (medium tiers) = 0"
        by (rule hits) auto
      moreover have "keyword_hits e (ascii ''    '') 1 0 (weak tiers) = 0"
        by (rule hits) auto
      ultimately show ?thesis by simp
    qed
    then show ?thesis
      by (simp add: calculate_keyword_score_def Some ktext Let_def)
  qed
  have p: "calculate_pattern_score e c ?tv category = 0"
  proof (cases "map_of (category_patterns c) category")
    case None
    then show ?thesis by (simp add: calculate_pattern_score_def)
  next
    case (Some ps)
    have "pattern_texts ?tv = [[], [], [], [], [], []]"
      by (simp add: pattern_texts_def tv)
    then have "foldl (\<lambda>n pattern.
        if list_ex (\<lambda>text. text \<noteq> [] \<and> re_search e pattern text) (pattern_texts ?tv)
        then n + 1 else n) (0::nat) ps = 0"
      by (intro pattern_fold_none) simp
    then show ?thesis
      by (simp add: calculate_pattern_score_def Some Let_def)
  qed
  have "join (ascii '' '')
      [cleaned ?tv, no_brackets ?tv, bracket_content ?tv, join (ascii '' '') (tv_all_tokens ?tv)] =
      ascii ''   ''"
    by (simp add: tv ascii_def)
  then have "similarity_text ?tv = []"
    by (simp only: similarity_text_def strip_blank [OF blank_more(1)])
  then have s: "calculate_similarity_score e c ?tv category = 0"
    by (simp add: calculate_similarity_score_def)
  show ?thesis
    by (simp add: score_category_def Let_def r k p s combined_score_zero
        apply_exclusion_rules_zero)
qed

lemma calculate_score_empty:
  assumes lex: "[] \<notin> set (map fst lexicon)" and low: "lower_sane e"
    and quiet: "rules_quiet_on_empty e (category_rules c)"
    and sim: "similarity_zero_on_empty e"
  shows "calculate_score e c (process_text_with_reserved_words e lexicon []) category = 0"
proof (cases "map_of (category_rules c) category")
  case None
  then show ?thesis by (simp add: calculate_score_def)
next
  case (Some rules)
  let ?pt = "process_text_with_reserved_words e lexicon []"
  note pt = process_ult_empty [OF lex]
  from Some have "(category, rules) \<in> set (category_rules c)"
    by (rule map_of_SomeD)
  then have nb: "\<forall>w\<in>set (rule_keywords rules). \<not> blank w"
    and nm: "\<forall>p\<in>set (patterns rules). \<not> re_search e p []"
    using quiet unfolding rules_quiet_on_empty_def by force+
  have low0: "lower e [] = []"
    using low blank_simps(1) unfolding lower_sane_def by blast
  have r: "ult_reserved_score rules ?pt = 0"
    by (simp add: ult_reserved_score_count pt)
  have "\<forall>w\<in>set (rule_keywords rules). \<not> contains (lower e w) []"
    using nb no_hit_in_blank [OF low blank_simps(1)] by blast
  then have "foldl (\<lambda>s keyword. if contains (lower e keyword) [] then s + 1 else s)
      (0::real) (rule_keywords rules) = 0"
    by (rule unit_fold_none)
  then have k: "ult_keyword_score e rules ?pt = 0"
    by (simp add: ult_keyword_score_def pt low0)
  have "foldl (\<lambda>s pattern. if re_search e pattern [] then s + 1 else s) (0::real)
      (patterns rules) = 0"
    using nm by (rule unit_fold_none)
  then have p: "ult_pattern_score e rules ?pt = 0"
    by (simp add: ult_pattern_score_def pt)
  have s: "ult_similarity_score e c ?pt category = 0"
    using sim unfolding similarity_zero_on_empty_def ult_similarity_score_def pt
    by (auto split: option.split) (metis option.inject option.distinct(1))+
  have x: "ult_exclude_penalty rules ?pt = 0"
    by (simp add: ult_exclude_penalty_cases pt reserved_hit_def list_ex_iff split: option.split)
  show ?thesis
    by (simp add: calculate_score_def Some r k p s x combined_score_zero)
qed

lemma max_by_all_equal:
  assumes "max_by f xs = Some b" and "\<forall>x\<in>set xs. f x = v"
  shows "b = hd xs"
proof (cases xs)
  case Nil
  with assms(1) show ?thesis by (simp add: max_by_def)
next
  case (Cons x rest)
  have "max_first f x rest = x"
    using assms(2) by (intro max_first_keeps_first) (simp add: Cons)
  with assms(1) show ?thesis by (simp add: max_by_def Cons)
qed

lemma first_category:
  assumes "rows \<noteq> []"
  shows "fst (hd (map (\<lambda>category. (category, g category)) (unique (map snd rows)))) = snd (hd rows)"
proof -
  have ne: "unique (map snd rows) \<noteq> []"
    using assms by (simp add: unique_nonempty)
  have "hd (unique (map snd rows)) = hd (map snd rows)"
    using assms by (simp add: unique_hd)
  then show ?thesis
    using assms ne by (simp add: hd_map)
qed

lemma lower_sane_env0: "lower_sane env0"
proof -
  have keep: "map ascii_lower s = s" if "blank s" for s
    using that by (induction s) (auto simp: blank_def ascii_lower_def)
  have conv: "blank s" if "blank (map ascii_lower s)" for s
  proof -
    have "c = 0x20" if "ascii_lower c = 0x20" for c
      using that by (auto simp: ascii_lower_def split: if_splits)
    then show ?thesis
      using that by (auto simp: blank_def)
  qed
  have env: "lower env0 = map ascii_lower"
    by (simp add: env0_def)
  show ?thesis
    unfolding lower_sane_def env using keep conv by blast
qed

lemma tables_fit_empty_input:
  "[] \<notin> set (map fst (reserved_processor sample_v3))"
  "keywords_not_blank (category_keywords sample_v3)"
  "[] \<notin> set (map fst (u_lexicon sample_ult))"
  "rules_quiet_on_empty env0 (category_rules sample_ult)"
  "similarity_zero_on_empty env0"
  by (simp_all add: sample_v3_def sample_ult_def reserved_words_v3_def reserved_words_ult_def
      category_keywords_v3_def category_rules_ult_def keywords_not_blank_def
      rules_quiet_on_empty_def similarity_zero_on_empty_def blank_def ascii_def env0_def)

text \<open>
  Claim C7: classifying the empty string with a training set that is not empty raises nothing
  and returns a category, with score 0.0 for every category; the winner is the first category
  in order of appearance in the training data.  For the v3 classifier this needs only that
  no lexicon phrase is empty, that no keyword is blank, and that lower-casing keeps blank
  strings apart from the others; for \<open>UltimateClassifier\<close>, which has no guard for an
  empty text, also that no pattern matches the empty string and that the similarity of the
  empty text is 0.0 or fails.  The tables of the source meet these conditions.
\<close>

theorem empty_input_scores_zero:
  "(data c \<noteq> [] \<and> lower_sane e \<and> [] \<notin> set (map fst (reserved_processor c)) \<and>
    keywords_not_blank (category_keywords c) \<longrightarrow>
      (\<exists>r. classify_text e c [] = Inr r \<and> best_prediction r = snd (hd (data c)) \<and>
           confidence r = 0 \<and>
           (\<forall>x\<in>set (all_scores r).
              snd x = \<lparr>total_score = 0, reserved_score = 0, keyword_score = 0,
                       pattern_score = 0, similarity_score = 0\<rparr>))) \<and>
   (u_data c' \<noteq> [] \<and> lower_sane e \<and> [] \<notin> set (map fst (u_lexicon c')) \<and>
    rules_quiet_on_empty e (category_rules c') \<and> similarity_zero_on_empty e \<longrightarrow>
      (\<exists>r. classify e c' [] = Inr r \<and> predicted_category r = snd (hd (u_data c')) \<and>
           r_confidence r = 0 \<and> (\<forall>x\<in>set (r_all_scores r). snd x = 0)))"
proof (intro conjI impI)
  assume a: "data c \<noteq> [] \<and> lower_sane e \<and> [] \<notin> set (map fst (reserved_processor c)) \<and>
    keywords_not_blank (category_keywords c)"
  then have ne: "data c \<noteq> []" and low: "lower_sane e"
    and lex: "[] \<notin> set (map fst (reserved_processor c))"
    and kw: "keywords_not_blank (category_keywords c)"
    by simp_all
  from classify_text_returns [OF ne, of e "[]"] obtain r best where
    res: "classify_text e c [] = Inr r"
    and tv: "processed_variants r = preprocess_text e (reserved_processor c) []"
    and scores: "all_scores r = map (\<lambda>category. (category, score_category e c (processed_variants r) category))
                      (unique (map snd (data c)))"
    and best: "max_by (\<lambda>x. total_score (snd x)) (all_scores r) = Some best"
    and pred: "best_prediction r = fst best"
    and conf: "confidence r = total_score (snd best)"
    by blast
  have zero: "snd x = \<lparr>total_score = 0, reserved_score = 0, keyword_score = 0,
                       pattern_score = 0, similarity_score = 0\<rparr>"
    if "x \<in> set (all_scores r)" for x
  proof -
    from that obtain category where
      "x = (category, score_category e c (processed_variants r) category)"
      unfolding scores by auto
    then show ?thesis
      by (simp add: tv score_category_empty [OF lex low kw])
  qed
  then have "\<forall>x\<in>set (all_scores r). total_score (snd x) = 0"
    by simp
  with best have "best = hd (all_scores r)"
    by (rule max_by_all_equal)
  then have first: "fst best = snd (hd (data c))"
    unfolding scores using first_category [OF ne] by simp
  have "best \<in> set (all_scores r)"
    using best by (rule max_by_in)
  then have "total_score (snd best) = 0"
    using zero by simp
  then show "\<exists>r. classify_text e c [] = Inr r \<and> best_prediction r = snd (hd (data c)) \<and>
           confidence r = 0 \<and>
           (\<forall>x\<in>set (all_scores r).
              snd x = \<lparr>total_score = 0, reserved_score = 0, keyword_score = 0,
                       pattern_score = 0, similarity_score = 0\<rparr>)"
    using res pred conf first zero by auto
next
  assume a: "u_data c' \<noteq> [] \<and> lower_sane e \<and> [] \<notin> set (map fst (u_lexicon c')) \<and>
    rules_quiet_on_empty e (category_rules c') \<and> similarity_zero_on_empty e"
  then have ne: "u_data c' \<noteq> []" and low: "lower_sane e"
    and lex: "[] \<notin> set (map fst (u_lexicon c'))"
    and quiet: "rules_quiet_on_empty e (category_rules c')"
    and sim: "similarity_zero_on_empty e"
    by simp_all
  from classify_returns [OF ne, of e "[]"] obtain r best where
    res: "classify e c' [] = Inr r"
    and pt: "processed_info r = process_text_with_reserved_words e (u_lexicon c') []"
    and scores: "r_all_scores r = map (\<lambda>category. (category, calculate_score e c' (processed_info r) category))
                        (unique (map snd (u_data c')))"
    and best: "max_by snd (r_all_scores r) = Some best"
    and pred: "predicted_category r = fst best"
    and conf: "r_confidence r = snd best"
    by blast
  have zero: "snd x = 0" if "x \<in> set (r_all_scores r)" for x
  proof -
    from that obtain category where
      "x = (category, calculate_score e c' (processed_info r) category)"
      unfolding scores by auto
    then show ?thesis
      by (simp add: pt calculate_score_empty [OF lex low quiet sim])
  qed
  then have "\<forall>x\<in>set (r_all_scores r). snd x = 0"
    by simp
  with best have "best = hd (r_all_scores r)"
    by (rule max_by_all_equal)
  then have first: "fst best = snd (hd (u_data c'))"
    unfolding scores using first_category [OF ne] by simp
  have "best \<in> set (r_all_scores r)"
    using best by (rule max_by_in)
  then have "snd best = 0"
    using zero by simp
  then show "\<exists>r. classify e c' [] = Inr r \<and> predicted_category r = snd (hd (u_data c')) \<and>
           r_confidence r = 0 \<and> (\<forall>x\<in>set (r_all_scores r). snd x = 0)"
    using res pred conf first zero by auto
qed

theorem empty_input_scores_zero_witness:
  "data sample_v3 \<noteq> [] \<and> lower_sane env0 \<and> [] \<notin> set (map fst (reserved_processor sample_v3)) \<and>
   keywords_not_blank (category_keywords sample_v3) \<and>
   (\<exists>r. classify_text env0 sample_v3 [] = Inr r \<and> best_prediction r = cat_physical \<and>
      confidence r = 0) \<and>
   u_data sample_ult \<noteq> [] \<and> [] \<notin> set (map fst (u_lexicon sample_ult)) \<and>
   rules_quiet_on_empty env0 (category_rules sample_ult) \<and> similarity_zero_on_empty env0 \<and>
   (\<exists>r. classify env0 sample_ult [] = Inr r \<and> predicted_category r = cat_physical \<and>
      r_confidence r = 0)"
proof -
  have first: "snd (hd (data sample_v3)) = cat_physical" "snd (hd (u_data sample_ult)) = cat_physical"
    by (simp_all add: sample_v3_def sample_ult_def sample_data_def)
  have v3: "\<exists>r. classify_text env0 sample_v3 [] = Inr r \<and> best_prediction r = cat_physical \<and>
      confidence r = 0"
    using empty_input_scores_zero [of sample_v3 env0 sample_ult]
      sample_data_nonempty(1) lower_sane_env0 tables_fit_empty_input(1,2)
    unfolding first by blast
  have ult: "\<exists>r. classify env0 sample_ult [] = Inr r \<and> predicted_category r = cat_physical \<and>
      r_confidence r = 0"
    using empty_input_scores_zero [of sample_v3 env0 sample_ult]
      sample_data_nonempty(2) lower_sane_env0 tables_fit_empty_input(3,4,5)
    unfolding first by blast
  show ?thesis
    using v3 ult sample_data_nonempty lower_sane_env0 tables_fit_empty_input by blast
qed

section \<open>Repeated calls\<close>

text \<open>
  Constructing a processor changes the dictionary of the word segmenter: afterwards the
  phrase "API" is registered with frequency 10000.
\<close>

lemma constructor_registers:
  "jieba (new_reserved_word_processor reserved_words_v3 Map.empty) (ascii ''API'') = Some 10000"
  by (simp add: new_reserved_word_processor_def register_reserved_words_def reserved_words_v3_def
      ascii_def)



section \<open>Characters kept by the segmenter\<close>


























text \<open>
  The fallback at work: the embedding preprocessing drops the single character U+7246 as a
  word and returns the cleaned text instead.
\<close>

lemma embedding_fallback_example: "embedding_preprocess_text env0 [0x7246] = [0x7246]"
proof -
  have c: "embedding_cleaned [0x7246] = [0x7246]"
    by (simp add: embedding_cleaned_def kept_char_def isspace_def strip_def)
  have "strip [0x7246] = [0x7246]"
    by (simp add: strip_def isspace_def)
  then show ?thesis
    by (simp add: embedding_preprocess_text_def c env0_def Let_def ascii_alnum_def)
qed

end
